theory Spec2Isabelle
  imports Main
begin

section \<open>Python strings and numbers\<close>

text \<open>
  A Python \<open>str\<close> is modelled as a HOL \<open>string\<close> holding ASCII text. A character
  above 127 stands for one byte of the UTF-8 encoding of a non-ASCII character; the
  character classes below treat such a byte as an ordinary symbol (no white space, no
  letter, no digit), so the model follows Python on ASCII documents.
\<close>

definition is_space :: "char \<Rightarrow> bool" where
  \<comment> \<open>\<open>str.isspace\<close> and the class \<open>\s\<close> on ASCII: TAB, LF, VT, FF, CR, FS, GS, RS, US, SPACE.\<close>
  "is_space c = (let n = of_char c :: nat in (9 \<le> n \<and> n \<le> 13) \<or> (28 \<le> n \<and> n \<le> 32))"

definition is_digit :: "char \<Rightarrow> bool" where
  "is_digit c = (let n = of_char c :: nat in 48 \<le> n \<and> n \<le> 57)"

definition is_upper :: "char \<Rightarrow> bool" where
  "is_upper c = (let n = of_char c :: nat in 65 \<le> n \<and> n \<le> 90)"

definition is_lower :: "char \<Rightarrow> bool" where
  "is_lower c = (let n = of_char c :: nat in 97 \<le> n \<and> n \<le> 122)"

definition is_word :: "char \<Rightarrow> bool" where
  \<comment> \<open>the class \<open>\w\<close> on ASCII: letters, digits and the underscore\<close>
  "is_word c = (is_upper c \<or> is_lower c \<or> is_digit c \<or> c = CHR ''_'')"

definition lower_char :: "char \<Rightarrow> char" where
  "lower_char c = (if is_upper c then char_of (of_char c + (32::nat)) else c)"

definition upper_char :: "char \<Rightarrow> char" where
  "upper_char c = (if is_lower c then char_of (of_char c - (32::nat)) else c)"

definition lower :: "string \<Rightarrow> string" where
  "lower s = map lower_char s"

definition upper :: "string \<Rightarrow> string" where
  "upper s = map upper_char s"

definition lstrip :: "string \<Rightarrow> string" where
  "lstrip s = dropWhile is_space s"

definition rstrip :: "string \<Rightarrow> string" where
  "rstrip s = rev (dropWhile is_space (rev s))"

definition strip :: "string \<Rightarrow> string" where
  "strip s = rstrip (lstrip s)"

definition rstrip_char :: "char \<Rightarrow> string \<Rightarrow> string" where
  \<comment> \<open>\<open>s.rstrip(c)\<close> for a one-character argument\<close>
  "rstrip_char c s = rev (dropWhile (\<lambda>x. x = c) (rev s))"

fun split_on :: "char \<Rightarrow> string \<Rightarrow> string list" where
  \<comment> \<open>\<open>s.split(c)\<close> for a one-character separator: always at least one part\<close>
  "split_on sep [] = [Nil]"
| "split_on sep (c # cs) =
     (if c = sep then [] # split_on sep cs
      else (case split_on sep cs of
              p # ps \<Rightarrow> (c # p) # ps
            | [] \<Rightarrow> [c # Nil]))"

fun starts_with :: "string \<Rightarrow> string \<Rightarrow> bool" where
  \<comment> \<open>\<open>starts_with p s\<close> is \<open>s.startswith(p)\<close>\<close>
  "starts_with [] s = True"
| "starts_with (p # ps) [] = False"
| "starts_with (p # ps) (c # cs) = (p = c \<and> starts_with ps cs)"

fun contains :: "string \<Rightarrow> string \<Rightarrow> bool" where
  \<comment> \<open>\<open>contains p s\<close> is \<open>p in s\<close>\<close>
  "contains p [] = (p = [])"
| "contains p (c # cs) = (starts_with p (c # cs) \<or> contains p cs)"

definition digit_char :: "nat \<Rightarrow> char" where
  "digit_char d = char_of (48 + d)"

fun show_nat :: "nat \<Rightarrow> string" where
  "show_nat n = (if n < 10 then [digit_char n] else show_nat (n div 10) @ [digit_char (n mod 10)])"

declare show_nat.simps [simp del]

definition show_int :: "int \<Rightarrow> string" where
  \<comment> \<open>\<open>str(i)\<close> of a Python integer\<close>
  "show_int i = (if i < 0 then CHR ''-'' # show_nat (nat (- i)) else show_nat (nat i))"

fun commas_rev :: "string \<Rightarrow> string" where
  "commas_rev (a # b # c # d # rest) = a # b # c # CHR '','' # commas_rev (d # rest)"
| "commas_rev ds = ds"

definition show_thousands :: "nat \<Rightarrow> string" where
  \<comment> \<open>the format \<open>{n:,}\<close>: decimal digits in groups of three\<close>
  "show_thousands n = rev (commas_rev (rev (show_nat n)))"

definition show_bool :: "bool \<Rightarrow> string" where
  "show_bool b = (if b then ''True'' else ''False'')"

definition nl :: string where
  "nl = [CHR 0x0A]"

definition dquote :: string where
  "dquote = [CHR 0x22]"

definition squote :: string where
  "squote = [CHR 0x27]"

datatype 'f py_num = PyInt int | PyFloat 'f

datatype py_error =
    ValueError string
  | ImportError string
  | RuntimeError string
  | ZeroDivisionError
  | OtherError

section \<open>The analysis record\<close>

text \<open>
  The dictionaries of the program become records. A claim is the dictionary
  \<open>{'category', 'text', 'count'}\<close> of \<open>_extract_claims\<close>; the field \<open>text\<close> is named
  \<open>claim_text\<close> here. The analysis record holds the keys of the dictionary of
  \<open>RepoAnalyzer.analyze\<close> that the roaster and the prompt composer read. Time stamps are
  seconds since the epoch; counts are natural numbers, as the platform and \<open>len\<close> give them.
\<close>

record claim =
  category :: string
  claim_text :: string
  count :: nat

record dependencies =
  dep_count :: nat
  dep_type :: "string option"
  dep_list :: "string list"

record 'f repo_data =
  full_name :: string
  stars :: nat
  description :: "string option"
  readme_claims :: "claim list"
  deps :: dependencies
  has_tests :: bool
  test_coverage :: "nat option"
  has_benchmarks :: bool
  has_ci :: bool
  has_docs :: bool
  created_at :: int
  updated_at :: int
  pushed_at :: int
  commits_last_90_days :: nat
  open_issues :: nat
  close_rate :: "'f py_num"
  license :: "string option"

section \<open>The quick roast (roaster.py, AIRoaster.quick\_roast)\<close>

record roast_entry =
  entry_claim :: string
  entry_evidence :: string
  entry_roast :: string

definition claims_of :: "string \<Rightarrow> 'f repo_data \<Rightarrow> claim list" where
  \<comment> \<open>\<open>[c for c in repo_data['readme_claims'] if c['category'] == cat]\<close>\<close>
  "claims_of cat d = filter (\<lambda>c. category c = cat) (readme_claims d)"

text \<open>
  The three checks, each on the state \<open>(roasts, score)\<close> of the function. The first
  matching claim is read only behind the test that the list is not empty, as in the source.
\<close>

definition check_performance :: "'f repo_data \<Rightarrow> roast_entry list \<times> int \<Rightarrow> roast_entry list \<times> int" where
  "check_performance d st =
     (case claims_of ''performance'' d of
        [] \<Rightarrow> st
      | c # _ \<Rightarrow>
          if \<not> has_benchmarks d then
            (fst st @ [\<lparr>entry_claim = claim_text c,
                        entry_evidence = ''No benchmarks found'',
                        entry_roast = dquote @ ''Trust me bro'' @ dquote @ '' - The Benchmark''\<rparr>],
             snd st - 20)
          else st)"

definition check_dependencies :: "'f repo_data \<Rightarrow> roast_entry list \<times> int \<Rightarrow> roast_entry list \<times> int" where
  "check_dependencies d st =
     (case claims_of ''lightweight'' d of
        [] \<Rightarrow> st
      | c # _ \<Rightarrow>
          if dep_count (deps d) > 50 then
            (fst st @ [\<lparr>entry_claim = claim_text c,
                        entry_evidence = show_nat (dep_count (deps d)) @ '' dependencies'',
                        entry_roast = squote @ claim_text c @ squote
                                      @ '' is a state of mind, not a dependency count''\<rparr>],
             snd st - 15)
          else st)"

definition check_production :: "'f repo_data \<Rightarrow> roast_entry list \<times> int \<Rightarrow> roast_entry list \<times> int" where
  "check_production d st =
     (case claims_of ''production'' d of
        [] \<Rightarrow> st
      | c # _ \<Rightarrow>
          if \<not> has_tests d then
            (fst st @ [\<lparr>entry_claim = claim_text c,
                        entry_evidence = ''No tests detected'',
                        entry_roast = ''Production ready for chaos engineering''\<rparr>],
             snd st - 25)
          else st)"

definition run_checks :: "'f repo_data \<Rightarrow> roast_entry list \<times> int" where
  "run_checks d = check_production d (check_dependencies d (check_performance d ([], 100)))"

definition final_score :: "roast_entry list \<times> int \<Rightarrow> int" where
  \<comment> \<open>the \<open>else\<close> branch of \<open>if roasts\<close> sets the score to 95\<close>
  "final_score st = (if fst st \<noteq> [] then snd st else 95)"

definition verdict_of :: "int \<Rightarrow> string" where
  "verdict_of score =
     (if score \<ge> 90 then ''Honest AF''
      else if score \<ge> 70 then ''Mostly True''
      else if score \<ge> 50 then ''Marketing Spin''
      else if score \<ge> 30 then ''Creative Liberties''
      else ''README Fiction'')"

text \<open>The decorative symbols of the output, as the bytes of the source file.\<close>

definition icon_repository :: string where
  "icon_repository = [CHR 0xC4, CHR 0x9F, CHR 0xC5, CHR 0xB8, CHR 0xE2, CHR 0x80, CHR 0x9C, CHR 0xC5, CHR 0xA0]"

definition icon_stars :: string where
  "icon_stars = [CHR 0xC3, CHR 0xA2, CHR 0xC2, CHR 0xAD]"

definition icon_claim :: string where
  "icon_claim = [CHR 0xC3, CHR 0xA2, CHR 0xC5, CHR 0x92]"

definition icon_clear :: string where
  "icon_clear = [CHR 0xC3, CHR 0xA2, CHR 0xC5, CHR 0x93, CHR 0xE2, CHR 0x80, CHR 0xA6]"

definition rule_line :: string where
  "rule_line = concat (replicate 33 [CHR 0xC3, CHR 0xA2, CHR 0xE2, CHR 0x80, CHR 0x9D]) @ nl"

definition render_entry :: "roast_entry \<Rightarrow> string" where
  "render_entry r =
     icon_claim @ '' CLAIM: '' @ dquote @ entry_claim r @ dquote @ nl
     @ ''   EVIDENCE: '' @ entry_evidence r @ nl
     @ ''   ROAST: '' @ entry_roast r @ nl @ nl"

definition all_clear_line :: string where
  "all_clear_line = icon_clear @ '' No obvious lies detected. Surprisingly honest!'' @ nl @ nl"

definition render_body :: "roast_entry list \<Rightarrow> string" where
  "render_body roasts = (if roasts \<noteq> [] then concat (map render_entry roasts) else all_clear_line)"

definition render_footer :: "int \<Rightarrow> string" where
  "render_footer score =
     rule_line
     @ ''TRUTH SCORE: '' @ show_int score @ ''/100'' @ nl
     @ ''VERDICT: '' @ verdict_of score @ nl
     @ rule_line"

definition render_header :: "'f repo_data \<Rightarrow> string" where
  "render_header d =
     nl @ icon_repository @ '' Repository: '' @ full_name d @ nl
     @ icon_stars @ '' Stars: '' @ show_thousands (stars d) @ nl @ nl"

record roast_result =
  res_roasts :: "roast_entry list"
  res_score :: int
  res_verdict :: string
  res_output :: string

definition quick_roast_run :: "'f repo_data \<Rightarrow> roast_result" where
  \<comment> \<open>the local variables of \<open>quick_roast\<close> when it returns\<close>
  "quick_roast_run d =
     (let st = run_checks d;
          roasts = fst st;
          score = final_score st;
          output = render_header d @ render_body roasts @ render_footer score
      in \<lparr>res_roasts = roasts, res_score = score, res_verdict = verdict_of score,
          res_output = output\<rparr>)"

definition quick_roast :: "'f repo_data \<Rightarrow> string" where
  "quick_roast d = res_output (quick_roast_run d)"

text \<open>
  The three mismatch rules as the specification words them: a claim of the category
  exists and the evidence is missing.
\<close>

definition performance_rule :: "'f repo_data \<Rightarrow> bool" where
  "performance_rule d =
     ((\<exists>c \<in> set (readme_claims d). category c = ''performance'') \<and> \<not> has_benchmarks d)"

definition lightweight_rule :: "'f repo_data \<Rightarrow> bool" where
  "lightweight_rule d =
     ((\<exists>c \<in> set (readme_claims d). category c = ''lightweight'') \<and> dep_count (deps d) > 50)"

definition production_rule :: "'f repo_data \<Rightarrow> bool" where
  "production_rule d =
     ((\<exists>c \<in> set (readme_claims d). category c = ''production'') \<and> \<not> has_tests d)"

section \<open>Regular expressions of the claim patterns\<close>

text \<open>
  The patterns of \<open>_extract_claims\<close> use a small part of Python's \<open>re\<close> syntax: a
  sequence of items, each a literal character or one of the classes \<open>\s\<close>, \<open>\d\<close>,
  \<open>\w\<close>, taken once, one or more times (\<open>+\<close>) or at most once (\<open>?\<close>). The
  pattern of \<open>_parse_repo_url\<close> adds the class \<open>[^/]\<close> of all characters but one. The
  matcher below is the backtracking matcher of \<open>re\<close> on this fragment: \<open>+\<close> and
  \<open>?\<close> are greedy, and the first alternative that succeeds is the match.
\<close>

datatype atom = Ch char | NotCh char | Space | Digit | WordCh

datatype item = One atom | Many atom | Opt atom

type_synonym regex = "item list"

fun atom_ok :: "atom \<Rightarrow> char \<Rightarrow> bool" where
  "atom_ok (Ch x) c = (c = x)"
| "atom_ok (NotCh x) c = (c \<noteq> x)"
| "atom_ok Space c = is_space c"
| "atom_ok Digit c = is_digit c"
| "atom_ok WordCh c = is_word c"

definition lit :: "string \<Rightarrow> regex" where
  "lit s = map (\<lambda>c. One (Ch c)) s"

fun match_here :: "regex \<Rightarrow> string \<Rightarrow> string option" where
  \<comment> \<open>the text matched by the pattern at the start of the string, if it matches there\<close>
  "match_here [] s = Some []"
| "match_here (One a # r) [] = None"
| "match_here (One a # r) (c # cs) =
     (if atom_ok a c then map_option (Cons c) (match_here r cs) else None)"
| "match_here (Many a # r) [] = None"
| "match_here (Many a # r) (c # cs) =
     (if atom_ok a c then
        (case match_here (Many a # r) cs of
           Some m \<Rightarrow> Some (c # m)
         | None \<Rightarrow> map_option (Cons c) (match_here r cs))
      else None)"
| "match_here (Opt a # r) [] = match_here r []"
| "match_here (Opt a # r) (c # cs) =
     (if atom_ok a c then
        (case match_here r cs of
           Some m \<Rightarrow> Some (c # m)
         | None \<Rightarrow> match_here r (c # cs))
      else match_here r (c # cs))"

fun findall :: "regex \<Rightarrow> string \<Rightarrow> string list" where
  \<comment> \<open>\<open>re.findall\<close> for a pattern without groups: the matches from left to right, each
      search starting where the last match ended\<close>
  "findall r [] = (case match_here r [] of Some m \<Rightarrow> [m] | None \<Rightarrow> [])"
| "findall r (c # cs) =
     (case match_here r (c # cs) of
        Some m \<Rightarrow> m # findall r (drop (length m - 1) cs)
      | None \<Rightarrow> findall r cs)"

fun search :: "regex \<Rightarrow> string \<Rightarrow> string option" where
  \<comment> \<open>\<open>re.search\<close>: the text of the leftmost match\<close>
  "search r [] = match_here r []"
| "search r (c # cs) =
     (case match_here r (c # cs) of
        Some m \<Rightarrow> Some m
      | None \<Rightarrow> search r cs)"

section \<open>The claim extractor (analyzer.py, RepoAnalyzer.\_extract\_claims)\<close>

text \<open>
  The dictionary \<open>patterns\<close>, in the order of its declaration, which is the order
  of \<open>patterns.items()\<close>. The source's patterns are:
  \<^item> performance: \<^verbatim>\<open>blazingly?\s+fast\<close>, \<^verbatim>\<open>\d+x\s+faster\<close>, \<^verbatim>\<open>lightning\s+fast\<close>, \<^verbatim>\<open>extremely\s+fast\<close>, \<^verbatim>\<open>super\s+fast\<close>, \<^verbatim>\<open>optimized\<close>, \<^verbatim>\<open>high\s+performance\<close>, \<^verbatim>\<open>performant\<close>, \<^verbatim>\<open>blazing\<close>
  \<^item> simplicity: \<^verbatim>\<open>simple\<close>, \<^verbatim>\<open>easy\<close>, \<^verbatim>\<open>straightforward\<close>, \<^verbatim>\<open>just\s+\w+\<close>, \<^verbatim>\<open>zero\s+config\<close>, \<^verbatim>\<open>no\s+setup\<close>, \<^verbatim>\<open>quick\s+start\<close>, \<^verbatim>\<open>minimal\s+setup\<close>, \<^verbatim>\<open>plug\s+and\s+play\<close>
  \<^item> production: \<^verbatim>\<open>production\s+ready\<close>, \<^verbatim>\<open>battle\s+tested\<close>, \<^verbatim>\<open>enterprise\s+grade\<close>, \<^verbatim>\<open>stable\<close>, \<^verbatim>\<open>reliable\<close>, \<^verbatim>\<open>proven\<close>, \<^verbatim>\<open>mature\<close>, \<^verbatim>\<open>industry\s+standard\<close>
  \<^item> lightweight: \<^verbatim>\<open>lightweight\<close>, \<^verbatim>\<open>minimal\<close>, \<^verbatim>\<open>tiny\<close>, \<^verbatim>\<open>small\s+footprint\<close>, \<^verbatim>\<open>zero\s+dependencies\<close>, \<^verbatim>\<open>no\s+dependencies\<close>, \<^verbatim>\<open>minimal\s+dependencies\<close>
  \<^item> modern: \<^verbatim>\<open>modern\<close>, \<^verbatim>\<open>cutting\s+edge\<close>, \<^verbatim>\<open>next\s+generation\<close>, \<^verbatim>\<open>future\s+proof\<close>, \<^verbatim>\<open>state\s+of\s+the\s+art\<close>
  \<^item> comprehensive: \<^verbatim>\<open>complete\<close>, \<^verbatim>\<open>full\s+featured\<close>, \<^verbatim>\<open>comprehensive\<close>, \<^verbatim>\<open>all\s+in\s+one\<close>, \<^verbatim>\<open>everything\s+you\s+need\<close>
\<close>

definition patterns :: "(string \<times> regex list) list" where
  "patterns =
    [(''performance'',
       [
        lit ''blazingl'' @ [Opt (Ch CHR ''y'')] @ [Many Space] @ lit ''fast'',
        [Many Digit] @ lit ''x'' @ [Many Space] @ lit ''faster'',
        lit ''lightning'' @ [Many Space] @ lit ''fast'',
        lit ''extremely'' @ [Many Space] @ lit ''fast'',
        lit ''super'' @ [Many Space] @ lit ''fast'',
        lit ''optimized'',
        lit ''high'' @ [Many Space] @ lit ''performance'',
        lit ''performant'',
        lit ''blazing'']),
     (''simplicity'',
       [
        lit ''simple'',
        lit ''easy'',
        lit ''straightforward'',
        lit ''just'' @ [Many Space] @ [Many WordCh],
        lit ''zero'' @ [Many Space] @ lit ''config'',
        lit ''no'' @ [Many Space] @ lit ''setup'',
        lit ''quick'' @ [Many Space] @ lit ''start'',
        lit ''minimal'' @ [Many Space] @ lit ''setup'',
        lit ''plug'' @ [Many Space] @ lit ''and'' @ [Many Space] @ lit ''play'']),
     (''production'',
       [
        lit ''production'' @ [Many Space] @ lit ''ready'',
        lit ''battle'' @ [Many Space] @ lit ''tested'',
        lit ''enterprise'' @ [Many Space] @ lit ''grade'',
        lit ''stable'',
        lit ''reliable'',
        lit ''proven'',
        lit ''mature'',
        lit ''industry'' @ [Many Space] @ lit ''standard'']),
     (''lightweight'',
       [
        lit ''lightweight'',
        lit ''minimal'',
        lit ''tiny'',
        lit ''small'' @ [Many Space] @ lit ''footprint'',
        lit ''zero'' @ [Many Space] @ lit ''dependencies'',
        lit ''no'' @ [Many Space] @ lit ''dependencies'',
        lit ''minimal'' @ [Many Space] @ lit ''dependencies'']),
     (''modern'',
       [
        lit ''modern'',
        lit ''cutting'' @ [Many Space] @ lit ''edge'',
        lit ''next'' @ [Many Space] @ lit ''generation'',
        lit ''future'' @ [Many Space] @ lit ''proof'',
        lit ''state'' @ [Many Space] @ lit ''of'' @ [Many Space] @ lit ''the'' @ [Many Space] @ lit ''art'']),
     (''comprehensive'',
       [
        lit ''complete'',
        lit ''full'' @ [Many Space] @ lit ''featured'',
        lit ''comprehensive'',
        lit ''all'' @ [Many Space] @ lit ''in'' @ [Many Space] @ lit ''one'',
        lit ''everything'' @ [Many Space] @ lit ''you'' @ [Many Space] @ lit ''need''])]"

definition scan_pattern ::
  "(regex \<Rightarrow> string \<Rightarrow> string list) \<Rightarrow> string \<Rightarrow> string \<Rightarrow> claim list \<Rightarrow> regex \<Rightarrow> claim list" where
  \<comment> \<open>the body of the inner loop: \<open>matches = re.findall(...)\<close>; \<open>if matches: claims.append(...)\<close>\<close>
  "scan_pattern fa readme_lower cat claims pattern =
     (case fa pattern readme_lower of
        [] \<Rightarrow> claims
      | m # ms \<Rightarrow> claims @ [\<lparr>category = cat, claim_text = m, count = length (m # ms)\<rparr>])"

fun scan_category ::
  "(regex \<Rightarrow> string \<Rightarrow> string list) \<Rightarrow> string \<Rightarrow> claim list \<Rightarrow> string \<times> regex list \<Rightarrow> claim list" where
  \<comment> \<open>the inner loop \<open>for pattern in pattern_list\<close>\<close>
  "scan_category fa readme_lower claims (cat, pattern_list) =
     foldl (scan_pattern fa readme_lower cat) claims pattern_list"

definition extract_claims_with :: "(regex \<Rightarrow> string \<Rightarrow> string list) \<Rightarrow> string \<Rightarrow> claim list" where
  \<comment> \<open>\<open>_extract_claims\<close> with the function that stands for \<open>re.findall\<close> as a parameter\<close>
  "extract_claims_with fa readme =
     (let readme_lower = lower readme
      in foldl (scan_category fa readme_lower) [] patterns)"

definition extract_claims :: "string \<Rightarrow> claim list" where
  "extract_claims readme = extract_claims_with findall readme"

text \<open>
  The extractor as the specification words it: one record for each pattern that has a
  match in the lowercased document, categories in the order of their declaration and
  patterns in the order of their list; the record holds the first match and the number
  of matches.
\<close>

definition claim_records :: "(regex \<Rightarrow> string \<Rightarrow> string list) \<Rightarrow> string \<Rightarrow> claim list" where
  "claim_records fa readme =
     [\<lparr>category = cat, claim_text = hd (fa p (lower readme)), count = length (fa p (lower readme))\<rparr>.
        (cat, ps) \<leftarrow> patterns, p \<leftarrow> ps, fa p (lower readme) \<noteq> []]"

section \<open>The prompt composer (prompts.py, build\_analysis\_prompt)\<close>

fun join_lines :: "string list \<Rightarrow> string" where
  \<comment> \<open>\<open>"\n".join(xs)\<close>\<close>
  "join_lines [] = []"
| "join_lines [x] = x"
| "join_lines (x # y # ys) = x @ nl @ join_lines (y # ys)"

definition or_else :: "string option \<Rightarrow> string \<Rightarrow> string" where
  \<comment> \<open>\<open>x or default\<close> for an optional string: \<open>None\<close> and the empty string are false\<close>
  "or_else x dflt = (case x of None \<Rightarrow> dflt | Some s \<Rightarrow> if s = [] then dflt else s)"

definition coverage_text :: "nat option \<Rightarrow> string" where
  \<comment> \<open>\<open>data['test_coverage'] or "Unknown"\<close>, as the format call renders it: \<open>None\<close> and
      the number 0 are false\<close>
  "coverage_text x =
     (case x of None \<Rightarrow> ''Unknown'' | Some n \<Rightarrow> if n = 0 then ''Unknown'' else show_nat n)"

definition seconds_per_day :: int where
  "seconds_per_day = 86400"

definition days_between :: "int \<Rightarrow> int \<Rightarrow> int" where
  \<comment> \<open>\<open>(later - earlier).days\<close>: the whole days of the difference, rounded down\<close>
  "days_between later earlier = (later - earlier) div seconds_per_day"

definition format_claim :: "claim \<Rightarrow> string" where
  "format_claim c =
     ''- '' @ upper (category c) @ '': '' @ dquote @ claim_text c @ dquote
     @ '' (mentioned '' @ show_nat (count c) @ ''x)'' @ nl"

definition claims_text :: "claim list \<Rightarrow> string" where
  "claims_text claims =
     (if claims \<noteq> [] then concat (map format_claim (take 10 claims))
      else ''- No specific claims detected in README'' @ nl)"

definition age_text :: "int \<Rightarrow> string" where
  "age_text age_days =
     (if age_days < 30 then show_int age_days @ '' days old (fresh!)''
      else if age_days < 365 then show_int (age_days div 30) @ '' months old''
      else show_int (age_days div 365) @ '' years old'')"

definition last_commit_text :: "int \<Rightarrow> string" where
  "last_commit_text days_since_commit =
     (if days_since_commit = 0 then ''today''
      else if days_since_commit = 1 then ''yesterday''
      else if days_since_commit < 30 then show_int days_since_commit @ '' days ago''
      else if days_since_commit < 365 then show_int (days_since_commit div 30) @ '' months ago''
      else show_int (days_since_commit div 365) @ '' years ago'')"

definition has_category :: "string \<Rightarrow> claim list \<Rightarrow> bool" where
  \<comment> \<open>\<open>any(c['category'] == cat for c in claims)\<close>\<close>
  "has_category cat claims = list_ex (\<lambda>c. category c = cat) claims"

definition specific_claims :: "'f repo_data \<Rightarrow> string list" where
  "specific_claims d =
     (if has_category ''performance'' (readme_claims d)
      then [''- Performance claims: Has benchmarks = '' @ show_bool (has_benchmarks d)] else [])
     @ (if has_category ''lightweight'' (readme_claims d)
        then [''- Lightweight claims: '' @ show_nat (dep_count (deps d)) @ '' dependencies''] else [])
     @ (if has_category ''production'' (readme_claims d)
        then [''- Production ready claims: Tests = '' @ show_bool (has_tests d)
              @ '', CI = '' @ show_bool (has_ci d)] else [])
     @ (if has_category ''simplicity'' (readme_claims d)
        then [''- Simplicity claims: Dependency count = '' @ show_nat (dep_count (deps d))] else [])"

definition specific_claims_text :: "'f repo_data \<Rightarrow> string" where
  "specific_claims_text d =
     (if specific_claims d \<noteq> [] then join_lines (specific_claims d)
      else ''- No specific claims to verify'')"

definition show_num :: "('f \<Rightarrow> string) \<Rightarrow> 'f py_num \<Rightarrow> string" where
  \<comment> \<open>a number as the format call renders it; the rendering of a float is a parameter\<close>
  "show_num show_float x = (case x of PyInt i \<Rightarrow> show_int i | PyFloat f \<Rightarrow> show_float f)"

text \<open>
  The keyword arguments of the call \<open>ANALYSIS_TEMPLATE.format(...)\<close>, each as the text it
  renders to.
\<close>

record template_fields =
  f_name :: string
  f_stars :: string
  f_description :: string
  f_claims :: string
  f_dep_count :: string
  f_dep_type :: string
  f_has_tests :: string
  f_test_coverage :: string
  f_has_benchmarks :: string
  f_has_ci :: string
  f_has_docs :: string
  f_last_commit :: string
  f_commit_count :: string
  f_open_issues :: string
  f_issue_close_rate :: string
  f_age :: string
  f_license :: string
  f_specific_claims :: string

definition star_symbol :: string where
  "star_symbol = [CHR 0xE2, CHR 0xAD, CHR 0x90]"

definition ANALYSIS_TEMPLATE :: "template_fields \<Rightarrow> string" where
  "ANALYSIS_TEMPLATE k =
     ''Analyze this GitHub repository and generate a roast:'' @ nl
     @ nl
     @ ''REPOSITORY: '' @ f_name k @ nl
     @ ''STARS: '' @ f_stars k @ '' '' @ star_symbol @ nl
     @ ''DESCRIPTION: '' @ f_description k @ nl
     @ nl
     @ ''README CLAIMS DETECTED:'' @ nl
     @ f_claims k @ nl
     @ nl
     @ ''ACTUAL EVIDENCE:'' @ nl
     @ ''- Dependencies: '' @ f_dep_count k @ '' ('' @ f_dep_type k @ '')'' @ nl
     @ ''- Has Tests: '' @ f_has_tests k @ nl
     @ ''- Test Coverage: '' @ f_test_coverage k @ nl
     @ ''- Has Benchmarks: '' @ f_has_benchmarks k @ nl
     @ ''- Has CI/CD: '' @ f_has_ci k @ nl
     @ ''- Has Documentation: '' @ f_has_docs k @ nl
     @ ''- Last Commit: '' @ f_last_commit k @ nl
     @ ''- Commit Activity (90 days): '' @ f_commit_count k @ '' commits'' @ nl
     @ ''- Open Issues: '' @ f_open_issues k @ nl
     @ ''- Issue Close Rate: '' @ f_issue_close_rate k @ ''%'' @ nl
     @ ''- Age: '' @ f_age k @ nl
     @ ''- License: '' @ f_license k @ nl
     @ nl
     @ ''SPECIFIC CLAIMS TO VERIFY:'' @ nl
     @ f_specific_claims k @ nl
     @ nl
     @ ''Generate a witty, sarcastic but fair roast. Focus on the gap between claims and reality.'' @ nl
     @ ''Be creative with your roasts - make them memorable and quotable.'' @ nl
     @ ''If the repo is actually honest and well-maintained, acknowledge that too.'' @ nl"

definition hot_pepper :: string where
  "hot_pepper = [CHR 0xF0, CHR 0x9F, CHR 0x8C, CHR 0xB6, CHR 0xEF, CHR 0xB8, CHR 0x8F]"

definition SPICY_MODE_ADDITION :: string where
  "SPICY_MODE_ADDITION =
     nl
     @ hot_pepper @ '' SPICY MODE ACTIVATED '' @ hot_pepper @ nl
     @ nl
     @ ''Turn up the heat! Be extra sarcastic and witty, but still fair.'' @ nl
     @ ''Reference developer culture, memes, and inside jokes.'' @ nl
     @ ''Make this roast legendary.'' @ nl"

definition prompt_fields :: "('f \<Rightarrow> string) \<Rightarrow> int \<Rightarrow> 'f repo_data \<Rightarrow> template_fields" where
  \<comment> \<open>\<open>now\<close> is the clock reading \<open>datetime.now(...)\<close>\<close>
  "prompt_fields show_float now d =
     \<lparr>f_name = full_name d,
      f_stars = show_nat (stars d),
      f_description = or_else (description d) ''No description'',
      f_claims = claims_text (readme_claims d),
      f_dep_count = show_nat (dep_count (deps d)),
      f_dep_type = or_else (dep_type (deps d)) ''unknown'',
      f_has_tests = show_bool (has_tests d),
      f_test_coverage = coverage_text (test_coverage d),
      f_has_benchmarks = show_bool (has_benchmarks d),
      f_has_ci = show_bool (has_ci d),
      f_has_docs = show_bool (has_docs d),
      f_last_commit = last_commit_text (days_between now (pushed_at d)),
      f_commit_count = show_nat (commits_last_90_days d),
      f_open_issues = show_nat (open_issues d),
      f_issue_close_rate = show_num show_float (close_rate d),
      f_age = age_text (days_between (updated_at d) (created_at d)),
      f_license = or_else (license d) ''No license'',
      f_specific_claims = specific_claims_text d\<rparr>"

definition build_analysis_prompt :: "('f \<Rightarrow> string) \<Rightarrow> int \<Rightarrow> 'f repo_data \<Rightarrow> bool \<Rightarrow> string" where
  "build_analysis_prompt show_float now d spicy =
     (let prompt = ANALYSIS_TEMPLATE (prompt_fields show_float now d)
      in if spicy then prompt @ nl @ SPICY_MODE_ADDITION else prompt)"

section \<open>Issue statistics (analyzer.py, RepoAnalyzer.\_get\_issue\_stats)\<close>

text \<open>
  The float arithmetic of Python is not modelled: the true division of two integers,
  the product of a float and an integer and \<open>round(x, 1)\<close> are parameters. What the
  model keeps is that a true division by zero raises \<open>ZeroDivisionError\<close>.
\<close>

record 'f float_ops =
  fdiv :: "int \<Rightarrow> int \<Rightarrow> 'f"
  fmul :: "'f \<Rightarrow> int \<Rightarrow> 'f"
  round1 :: "'f \<Rightarrow> 'f"

definition true_div :: "'f float_ops \<Rightarrow> int \<Rightarrow> int \<Rightarrow> py_error + 'f" where
  \<comment> \<open>\<open>a / b\<close> on integers\<close>
  "true_div ops a b = (if b = 0 then Inl ZeroDivisionError else Inr (fdiv ops a b))"

record 'f issue_stats =
  open_count :: nat
  closed_count :: nat
  total_count :: nat
  stats_close_rate :: "'f py_num"

definition close_rate_of :: "'f float_ops \<Rightarrow> nat \<Rightarrow> nat \<Rightarrow> py_error + 'f py_num" where
  \<comment> \<open>\<open>round(closed_issues / total_issues * 100, 1) if total_issues > 0 else 0\<close>\<close>
  "close_rate_of ops closed_issues total_issues =
     (if total_issues > 0 then
        (case true_div ops (int closed_issues) (int total_issues) of
           Inl e \<Rightarrow> Inl e
         | Inr q \<Rightarrow> Inr (PyFloat (round1 ops (fmul ops q 100))))
      else Inr (PyInt 0))"

definition issue_stats_body ::
  "'f float_ops \<Rightarrow> py_error + nat \<Rightarrow> py_error + nat \<Rightarrow> py_error + 'f issue_stats" where
  \<comment> \<open>the body of the \<open>try\<close>; the two arguments are the outcomes of reading
      \<open>repo.open_n_count\<close> and \<open>repo.get_issues(state='closed').totalCount\<close>\<close>
  "issue_stats_body ops open_query closed_query =
     (case open_query of
        Inl e \<Rightarrow> Inl e
      | Inr open_n \<Rightarrow>
     (case closed_query of
        Inl e \<Rightarrow> Inl e
      | Inr closed_n \<Rightarrow>
     (let total_n = open_n + closed_n in
      case close_rate_of ops closed_n total_n of
        Inl e \<Rightarrow> Inl e
      | Inr rate \<Rightarrow>
          Inr \<lparr>open_count = open_n, closed_count = closed_n,
               total_count = total_n, stats_close_rate = rate\<rparr>)))"

definition default_issue_stats :: "'f issue_stats" where
  "default_issue_stats =
     \<lparr>open_count = 0, closed_count = 0, total_count = 0, stats_close_rate = PyInt 0\<rparr>"

definition get_issue_stats ::
  "'f float_ops \<Rightarrow> py_error + nat \<Rightarrow> py_error + nat \<Rightarrow> 'f issue_stats" where
  \<comment> \<open>\<open>try: ... except: return\<close> the default\<close>
  "get_issue_stats ops open_query closed_query =
     (case issue_stats_body ops open_query closed_query of
        Inr stats \<Rightarrow> stats
      | Inl e \<Rightarrow> default_issue_stats)"

section \<open>Repository references (analyzer.py, RepoAnalyzer.\_parse\_repo\_url)\<close>

definition repo_regex :: regex where
  \<comment> \<open>\<^verbatim>\<open>github\.com/([^/]+)/([^/]+)\<close>\<close>
  "repo_regex =
     lit ''github.com/'' @ [Many (NotCh CHR ''/''), One (Ch CHR ''/''), Many (NotCh CHR ''/'')]"

text \<open>
  The two groups of a match of \<open>repo_regex\<close>: neither holds a slash, so the first group
  is the text between the host and the next slash, and the second group is the rest of
  the match.
\<close>

definition group1 :: "string \<Rightarrow> string" where
  "group1 m = takeWhile (\<lambda>c. c \<noteq> CHR ''/'') (drop (length ''github.com/'') m)"

definition group2 :: "string \<Rightarrow> string" where
  "group2 m = drop 1 (dropWhile (\<lambda>c. c \<noteq> CHR ''/'') (drop (length ''github.com/'') m))"

definition trimmed :: "string \<Rightarrow> string" where
  \<comment> \<open>\<open>url.strip().rstrip('/')\<close>\<close>
  "trimmed url = rstrip_char CHR ''/'' (strip url)"

definition format_error :: "string \<Rightarrow> py_error" where
  "format_error url = ValueError (''Invalid GitHub URL format: '' @ url)"

definition parse_repo_url :: "string \<Rightarrow> py_error + (string \<times> string)" where
  "parse_repo_url url0 =
     (let url = trimmed url0 in
      if contains ''github.com'' url then
        (case search repo_regex url of
           Some m \<Rightarrow> Inr (group1 m, group2 m)
         | None \<Rightarrow> Inl (format_error url))
      else
        (case split_on CHR ''/'' url of
           [owner, name] \<Rightarrow> Inr (owner, name)
         | _ \<Rightarrow> Inl (format_error url)))"

text \<open>
  The textual forms that the function accepts, stated on the trimmed text. A segment is
  a non-empty text without a slash. The host form covers the full URL and the bare host
  with a path: the text \<open>github.com/\<close>, an owner segment, a slash and a name segment that
  ends at the next slash or at the end of the text. The short form has no \<open>github.com\<close>
  and exactly one slash, with the owner before it and the name after it.
\<close>

definition segment :: "string \<Rightarrow> bool" where
  "segment s = (s \<noteq> [] \<and> CHR ''/'' \<notin> set s)"

definition host_form :: "string \<Rightarrow> string \<Rightarrow> string \<Rightarrow> bool" where
  "host_form u owner name =
     (\<exists>pre post. u = pre @ ''github.com/'' @ owner @ ''/'' @ name @ post
        \<and> segment owner \<and> segment name \<and> (post = [] \<or> hd post = CHR ''/''))"

definition short_form :: "string \<Rightarrow> string \<Rightarrow> string \<Rightarrow> bool" where
  "short_form u owner name =
     (\<not> contains ''github.com'' u \<and> u = owner @ ''/'' @ name
      \<and> CHR ''/'' \<notin> set owner \<and> CHR ''/'' \<notin> set name)"

section \<open>Dependency detection (analyzer.py, RepoAnalyzer.\_get\_dependencies)\<close>

text \<open>
  The repository is what \<open>repo.get_contents\<close> answers for a file name: nothing when the
  call raises (the file is not there), or a file. A file is seen through the two
  readings the function makes of it, each of which can raise: the key lists of the
  objects \<open>dependencies\<close> and \<open>devDependencies\<close> of its JSON content (each key once, in
  the order of the document), and its content decoded as UTF-8.
\<close>

record repo_file =
  json_deps :: "(string list \<times> string list) option"
  utf8_text :: "string option"

type_synonym repo_contents = "string \<Rightarrow> repo_file option"

definition dep_files :: "(string \<times> string) list" where
  "dep_files =
     [(''package.json'', ''npm''),
      (''requirements.txt'', ''pip''),
      (''Cargo.toml'', ''cargo''),
      (''go.mod'', ''go''),
      (''pom.xml'', ''maven''),
      (''build.gradle'', ''gradle''),
      (''Gemfile'', ''bundler'')]"

definition merge_keys :: "string list \<Rightarrow> string list \<Rightarrow> string list" where
  \<comment> \<open>the keys of \<open>{**a, **b}\<close>: those of \<open>a\<close>, then the new ones of \<open>b\<close>\<close>
  "merge_keys a b = a @ filter (\<lambda>k. k \<notin> set a) b"

definition requirement_lines :: "string \<Rightarrow> string list" where
  \<comment> \<open>\<open>[l.strip() for l in lines if l.strip() and not l.startswith('#')]\<close>\<close>
  "requirement_lines content =
     [strip l. l \<leftarrow> split_on (CHR 0x0A) content, strip l \<noteq> [] \<and> \<not> starts_with ''#'' l]"

fun probe :: "repo_contents \<Rightarrow> (string \<times> string) list \<Rightarrow> dependencies \<Rightarrow> dependencies" where
  \<comment> \<open>the loop over \<open>dep_files.items()\<close>; a raise anywhere in the body goes on to the
      next file, with the assignments made so far kept\<close>
  "probe repo [] d = d"
| "probe repo ((filename, dtype) # rest) d =
     (case repo filename of
        None \<Rightarrow> probe repo rest d
      | Some content \<Rightarrow>
          (let d1 = d\<lparr>dep_type := Some dtype\<rparr> in
           if filename = ''package.json'' then
             (case json_deps content of
                None \<Rightarrow> probe repo rest d1
              | Some (prod_keys, dev_keys) \<Rightarrow>
                  d1\<lparr>dep_count := length (merge_keys prod_keys dev_keys),
                     dep_list := merge_keys prod_keys dev_keys\<rparr>)
           else if filename = ''requirements.txt'' then
             (case utf8_text content of
                None \<Rightarrow> probe repo rest d1
              | Some content_text \<Rightarrow>
                  d1\<lparr>dep_list := requirement_lines content_text,
                     dep_count := length (requirement_lines content_text)\<rparr>)
           else d1))"

definition get_dependencies :: "repo_contents \<Rightarrow> dependencies" where
  "get_dependencies repo = probe repo dep_files \<lparr>dep_count = 0, dep_type = None, dep_list = []\<rparr>"

definition processed :: "repo_contents \<Rightarrow> string \<Rightarrow> bool" where
  \<comment> \<open>the file is found and the body of the loop reads it without a raise\<close>
  "processed repo filename =
     (case repo filename of
        None \<Rightarrow> False
      | Some content \<Rightarrow>
          if filename = ''package.json'' then json_deps content \<noteq> None
          else if filename = ''requirements.txt'' then utf8_text content \<noteq> None
          else True)"

section \<open>The roaster and the command (roaster.py, AIRoaster; cli.py, roast)\<close>

text \<open>
  The world outside the program: whether the two client libraries can be imported, what
  the backend answers to a prompt (\<open>Inl\<close> the message of the exception when the call
  raises), and the clock. The calls that reach a backend are recorded as events.
\<close>

record environment =
  ollama_installed :: bool
  openai_installed :: bool
  chat_reply :: "string \<Rightarrow> string + string"
  clock :: int

datatype client = OllamaClient | OpenAIClient string

datatype event = CreateOllamaClient | ListOllamaModels | CreateOpenAIClient | Chat

record roaster =
  model :: string
  api_key :: "string option"
  client :: "client option"
  backend :: "string option"

definition init_ollama :: "environment \<Rightarrow> roaster \<Rightarrow> event list \<times> (py_error + roaster)" where
  \<comment> \<open>the check of the model list only prints: its own \<open>except\<close> swallows what it raises\<close>
  "init_ollama env self =
     (if \<not> ollama_installed env then
        ([], Inl (ImportError (''Ollama not installed. Install with: pip install ollama'' @ nl
                               @ ''Also install Ollama: https://ollama.com/download'')))
      else
        ([CreateOllamaClient, ListOllamaModels],
         Inr (self\<lparr>client := Some OllamaClient, backend := Some ''ollama''\<rparr>)))"

definition init_openai :: "environment \<Rightarrow> roaster \<Rightarrow> event list \<times> (py_error + roaster)" where
  "init_openai env self =
     (case api_key self of
        None \<Rightarrow>
          ([], Inl (ValueError (''OpenAI API key required for GPT models.'' @ nl
                    @ ''Usage: gte roast <repo> --model gpt-4 --api-key YOUR_KEY'')))
      | Some key \<Rightarrow>
          if key = [] then
            ([], Inl (ValueError (''OpenAI API key required for GPT models.'' @ nl
                      @ ''Usage: gte roast <repo> --model gpt-4 --api-key YOUR_KEY'')))
          else if \<not> openai_installed env then
            ([], Inl (ImportError ''OpenAI not installed. Install with: pip install openai''))
          else
            ([CreateOpenAIClient],
             Inr (self\<lparr>client := Some (OpenAIClient key), backend := Some ''openai''\<rparr>)))"

definition AIRoaster_init ::
  "environment \<Rightarrow> string \<Rightarrow> string option \<Rightarrow> bool \<Rightarrow> event list \<times> (py_error + roaster)" where
  \<comment> \<open>\<open>AIRoaster.__init__(model, api_key, quick_mode)\<close>\<close>
  "AIRoaster_init env model_name key quick_mode =
     (let self = \<lparr>model = model_name, api_key = key, client = None, backend = None\<rparr> in
      if quick_mode then ([], Inr self)
      else if starts_with ''gpt'' model_name then init_openai env self
      else init_ollama env self)"

definition no_client_message :: string where
  \<comment> \<open>the message of the \<open>AttributeError\<close> that a call on the client \<open>None\<close> raises\<close>
  "no_client_message =
     squote @ ''NoneType'' @ squote @ '' object has no attribute '' @ squote @ ''chat'' @ squote"

definition roast_ollama :: "environment \<Rightarrow> roaster \<Rightarrow> string \<Rightarrow> event list \<times> (py_error + string)" where
  "roast_ollama env self prompt =
     (case client self of
        None \<Rightarrow>
          ([], Inl (RuntimeError (''Ollama error: '' @ no_client_message @ nl
                    @ ''Make sure Ollama is running: ollama serve'')))
      | Some c \<Rightarrow>
          (case chat_reply env prompt of
             Inr reply \<Rightarrow> ([Chat], Inr reply)
           | Inl e \<Rightarrow>
               ([Chat], Inl (RuntimeError (''Ollama error: '' @ e @ nl
                         @ ''Make sure Ollama is running: ollama serve'')))))"

definition roast_openai :: "environment \<Rightarrow> roaster \<Rightarrow> string \<Rightarrow> event list \<times> (py_error + string)" where
  "roast_openai env self prompt =
     (case client self of
        None \<Rightarrow> ([], Inl (RuntimeError (''OpenAI error: '' @ no_client_message)))
      | Some c \<Rightarrow>
          (case chat_reply env prompt of
             Inr reply \<Rightarrow> ([Chat], Inr reply)
           | Inl e \<Rightarrow> ([Chat], Inl (RuntimeError (''OpenAI error: '' @ e)))))"

definition roast ::
  "('f \<Rightarrow> string) \<Rightarrow> environment \<Rightarrow> roaster \<Rightarrow> 'f repo_data \<Rightarrow> bool
     \<Rightarrow> event list \<times> (py_error + string)" where
  "roast show_float env self repo spicy =
     (let prompt = build_analysis_prompt show_float (clock env) repo spicy in
      if backend self = Some ''ollama'' then roast_ollama env self prompt
      else roast_openai env self prompt)"

text \<open>
  The second step of the command \<open>roast\<close>, after the analysis has given the record. In
  the quick branch the constructor is called as \<open>AIRoaster(model=model, api_key=api_key)\<close>,
  with \<open>quick_mode\<close> left at its default \<open>False\<close>, outside any \<open>try\<close>: what it raises
  ends the command. In the other branch an exception prints the advice and exits with 1.
\<close>

datatype outcome = Shown string | Exit nat | Uncaught py_error

definition generate_roast ::
  "('f \<Rightarrow> string) \<Rightarrow> environment \<Rightarrow> bool \<Rightarrow> string \<Rightarrow> string option \<Rightarrow> bool
     \<Rightarrow> 'f repo_data \<Rightarrow> event list \<times> outcome" where
  "generate_roast show_float env quick model_name key spicy repo =
     (if quick then
        (case AIRoaster_init env model_name key False of
           (ev, Inl e) \<Rightarrow> (ev, Uncaught e)
         | (ev, Inr self) \<Rightarrow> (ev, Shown (quick_roast repo)))
      else
        (case AIRoaster_init env model_name key False of
           (ev, Inl e) \<Rightarrow> (ev, Exit 1)
         | (ev, Inr self) \<Rightarrow>
             (case roast show_float env self repo spicy of
                (ev2, Inl e) \<Rightarrow> (ev @ ev2, Exit 1)
              | (ev2, Inr roast_text) \<Rightarrow> (ev @ ev2, Shown roast_text))))"

section \<open>Concrete inputs\<close>

definition honest_repo :: "unit repo_data" where
  "honest_repo =
     \<lparr>full_name = ''octo/honest'', stars = 1234, description = Some ''A small tool'',
      readme_claims = [\<lparr>category = ''performance'', claim_text = ''optimized'', count = 2\<rparr>],
      deps = \<lparr>dep_count = 3, dep_type = Some ''pip'', dep_list = [''a'', ''b'', ''c'']\<rparr>,
      has_tests = True, test_coverage = None, has_benchmarks = True, has_ci = True,
      has_docs = True, created_at = 0, updated_at = 864000, pushed_at = 864000,
      commits_last_90_days = 5, open_issues = 1, close_rate = PyInt 0, license = Some ''MIT''\<rparr>"

definition spin_readme :: string where
  "spin_readme = ''Blazingly fast! Really blazingly fast. BLAZINGLY FAST, with zero dependencies.''"

definition spin_repo :: "unit repo_data" where
  \<comment> \<open>three times "blazingly fast", once "zero dependencies"; no benchmarks, 120 dependencies\<close>
  "spin_repo =
     \<lparr>full_name = ''octo/spin'', stars = 50000, description = Some ''A web framework'',
      readme_claims = extract_claims spin_readme,
      deps = \<lparr>dep_count = 120, dep_type = Some ''npm'', dep_list = []\<rparr>,
      has_tests = False, test_coverage = Some 0, has_benchmarks = False, has_ci = True,
      has_docs = True, created_at = 0, updated_at = 864000, pushed_at = 864000,
      commits_last_90_days = 5, open_issues = 1, close_rate = PyInt 0, license = None\<rparr>"

definition fiction_repo :: "unit repo_data" where
  \<comment> \<open>the same document with one more sentence, "Production ready.", and no tests\<close>
  "fiction_repo = spin_repo\<lparr>readme_claims := extract_claims (spin_readme @ '' Production ready.'')\<rparr>"

text \<open>Float operations that only record what was asked of them.\<close>

datatype sym_float = Quot int int | Times sym_float int | Round1 sym_float

definition sym_ops :: "sym_float float_ops" where
  "sym_ops = \<lparr>fdiv = Quot, fmul = Times, round1 = Round1\<rparr>"

definition offline_env :: environment where
  \<comment> \<open>no client library installed, no backend reachable\<close>
  "offline_env =
     \<lparr>ollama_installed = False, openai_installed = False,
      chat_reply = (\<lambda>p. Inl ''connection refused''), clock = 864000\<rparr>"

definition local_env :: environment where
  \<comment> \<open>the Ollama client library installed\<close>
  "local_env = offline_env\<lparr>ollama_installed := True\<rparr>"

definition broken_json_repo :: repo_contents where
  \<comment> \<open>a package.json that is not valid JSON beside a requirements.txt\<close>
  "broken_json_repo =
     (\<lambda>f. None)
       (''package.json'' := Some \<lparr>json_deps = None, utf8_text = Some ''{ not json''\<rparr>,
        ''requirements.txt'' :=
          Some \<lparr>json_deps = None, utf8_text = Some (''flask'' @ nl @ ''requests'' @ nl)\<rparr>)"

definition npm_repo :: repo_contents where
  "npm_repo =
     (\<lambda>f. None)
       (''package.json'' :=
          Some \<lparr>json_deps = Some ([''react'', ''lodash''], [''jest'', ''react'']),
                utf8_text = Some ''{}''\<rparr>)"

section \<open>Facts about the string functions\<close>

lemma starts_with_iff: "starts_with p s \<longleftrightarrow> (\<exists>post. s = p @ post)"
  by (induction p s rule: starts_with.induct) auto

lemma contains_iff: "contains p s \<longleftrightarrow> (\<exists>pre post. s = pre @ p @ post)"
proof (induction s)
  case Nil
  then show ?case by auto
next
  case (Cons c cs)
  show ?case
  proof
    assume "contains p (c # cs)"
    then consider "starts_with p (c # cs)" | "contains p cs" by auto
    then show "\<exists>pre post. c # cs = pre @ p @ post"
    proof cases
      case 1
      then obtain post where "c # cs = p @ post" by (auto simp: starts_with_iff)
      then have "c # cs = [] @ p @ post" by simp
      then show ?thesis by blast
    next
      case 2
      then obtain pre post where "cs = pre @ p @ post" using Cons.IH by auto
      then have "c # cs = (c # pre) @ p @ post" by simp
      then show ?thesis by blast
    qed
  next
    assume "\<exists>pre post. c # cs = pre @ p @ post"
    then obtain pre post where e: "c # cs = pre @ p @ post" by auto
    show "contains p (c # cs)"
    proof (cases pre)
      case Nil
      then have "starts_with p (c # cs)" using e by (auto simp: starts_with_iff)
      then show ?thesis by simp
    next
      case (Cons a pre')
      then have "cs = pre' @ p @ post" using e by simp
      then have "contains p cs" using Cons.IH by auto
      then show ?thesis by simp
    qed
  qed
qed

lemma contains_middle: "contains p (a @ p @ b)"
  by (auto simp: contains_iff)

lemma split_on_not_empty: "split_on sep s \<noteq> []"
  by (induction s) (auto split: list.splits)

lemma split_on_no_sep: "sep \<notin> set s \<Longrightarrow> split_on sep s = [s]"
  by (induction s) auto

lemma split_on_sep: "sep \<notin> set a \<Longrightarrow> split_on sep (a @ sep # rest) = a # split_on sep rest"
  by (induction a) auto

lemma split_on_single: "split_on sep s = [x] \<Longrightarrow> s = x \<and> sep \<notin> set x"
proof (induction s arbitrary: x)
  case Nil
  then show ?case by simp
next
  case (Cons c cs)
  show ?case
  proof (cases "c = sep")
    case True
    then show ?thesis using Cons.prems split_on_not_empty [of sep cs] by simp
  next
    case False
    then obtain p ps where p: "split_on sep cs = p # ps"
      using split_on_not_empty [of sep cs] by (cases "split_on sep cs") auto
    with False Cons.prems have "ps = []" "x = c # p" by auto
    with p Cons.IH [of p] False show ?thesis by auto
  qed
qed

lemma split_on_two:
  "split_on sep s = [a, b] \<longleftrightarrow> s = a @ sep # b \<and> sep \<notin> set a \<and> sep \<notin> set b"
proof
  assume two: "split_on sep s = [a, b]"
  show "s = a @ sep # b \<and> sep \<notin> set a \<and> sep \<notin> set b"
  proof (cases "sep \<in> set s")
    case False
    then show ?thesis using two by (simp add: split_on_no_sep)
  next
    case True
    then obtain a' rest where s: "s = a' @ sep # rest" and a': "sep \<notin> set a'"
      by (meson split_list_first)
    then have "a' # split_on sep rest = [a, b]" using two by (simp add: split_on_sep)
    then have "a' = a" "split_on sep rest = [b]" by auto
    then show ?thesis using s a' split_on_single [of sep rest b] by auto
  qed
next
  assume "s = a @ sep # b \<and> sep \<notin> set a \<and> sep \<notin> set b"
  then show "split_on sep s = [a, b]"
    by (simp add: split_on_sep split_on_no_sep)
qed

section \<open>Properties of the quick roast\<close>

lemma claims_of_empty_iff:
  "claims_of cat d = [] \<longleftrightarrow> \<not> (\<exists>c \<in> set (readme_claims d). category c = cat)"
  by (auto simp: claims_of_def filter_empty_conv)

lemma check_performance_idle:
  "\<not> performance_rule d \<Longrightarrow> check_performance d st = st"
  unfolding performance_rule_def check_performance_def
  using claims_of_empty_iff[of "''performance''" d]
  by (auto split: list.splits)

lemma check_dependencies_idle:
  "\<not> lightweight_rule d \<Longrightarrow> check_dependencies d st = st"
  unfolding lightweight_rule_def check_dependencies_def
  using claims_of_empty_iff[of "''lightweight''" d]
  by (auto split: list.splits)

lemma check_production_idle:
  "\<not> production_rule d \<Longrightarrow> check_production d st = st"
  unfolding production_rule_def check_production_def
  using claims_of_empty_iff[of "''production''" d]
  by (auto split: list.splits)

lemma verdict_95: "verdict_of 95 = ''Honest AF''"
  by (simp add: verdict_of_def)

lemma run_checks_score_cases:
  "snd (run_checks d) \<in> {100, 80, 85, 75, 65, 60, 55, 40}"
  by (auto simp: run_checks_def check_performance_def check_dependencies_def
        check_production_def split: list.splits)

lemma run_checks_no_entry_iff:
  "fst (run_checks d) = [] \<longleftrightarrow> snd (run_checks d) = 100"
  by (auto simp: run_checks_def check_performance_def check_dependencies_def
        check_production_def split: list.splits)

lemma show_int_95: "show_int 95 = ''95''"
  by code_simp

text \<open>
  C3. When none of the three mismatch rules fires, the checks leave the score at the
  baseline 100 and the list of mismatch entries empty; the function then sets the score
  to 95 and the verdict is "Honest AF". The text it returns is the header with the name
  and the stars, the all-clear line in the place of entries, and between the two rules
  the lines "TRUTH SCORE: 95/100" and "VERDICT: Honest AF"; no "CLAIM:" entry is written.
\<close>

theorem quick_roast_all_clear:
  assumes "\<not> performance_rule d" and "\<not> lightweight_rule d" and "\<not> production_rule d"
  shows "snd (run_checks d) = 100
       \<and> res_score (quick_roast_run d) = 95
       \<and> res_roasts (quick_roast_run d) = []
       \<and> res_verdict (quick_roast_run d) = ''Honest AF''
       \<and> quick_roast d =
           [CHR 0x0A] @ [CHR 0xC4, CHR 0x9F, CHR 0xC5, CHR 0xB8, CHR 0xE2, CHR 0x80, CHR 0x9C, CHR 0xC5, CHR 0xA0] @ '' Repository: '' @ full_name d @ [CHR 0x0A]
           @ [CHR 0xC3, CHR 0xA2, CHR 0xC2, CHR 0xAD] @ '' Stars: '' @ show_thousands (stars d) @ [CHR 0x0A, CHR 0x0A]
           @ [CHR 0xC3, CHR 0xA2, CHR 0xC5, CHR 0x93, CHR 0xE2, CHR 0x80, CHR 0xA6] @ '' No obvious lies detected. Surprisingly honest!'' @ [CHR 0x0A, CHR 0x0A]
           @ concat (replicate 33 [CHR 0xC3, CHR 0xA2, CHR 0xE2, CHR 0x80, CHR 0x9D]) @ [CHR 0x0A]
           @ ''TRUTH SCORE: 95/100'' @ [CHR 0x0A] @ ''VERDICT: Honest AF'' @ [CHR 0x0A]
           @ concat (replicate 33 [CHR 0xC3, CHR 0xA2, CHR 0xE2, CHR 0x80, CHR 0x9D]) @ [CHR 0x0A]
       \<and> contains ('' No obvious lies detected. Surprisingly honest!'' @ [CHR 0x0A, CHR 0x0A]) (quick_roast d)
       \<and> contains (''TRUTH SCORE: 95/100'' @ [CHR 0x0A] @ ''VERDICT: Honest AF'' @ [CHR 0x0A]) (quick_roast d)"
proof -
  have st: "run_checks d = ([], 100)"
    using assms
    by (simp add: run_checks_def check_performance_idle check_dependencies_idle
          check_production_idle)
  have outp: "quick_roast d =
           [CHR 0x0A] @ [CHR 0xC4, CHR 0x9F, CHR 0xC5, CHR 0xB8, CHR 0xE2, CHR 0x80, CHR 0x9C, CHR 0xC5, CHR 0xA0] @ '' Repository: '' @ full_name d @ [CHR 0x0A]
           @ [CHR 0xC3, CHR 0xA2, CHR 0xC2, CHR 0xAD] @ '' Stars: '' @ show_thousands (stars d) @ [CHR 0x0A, CHR 0x0A]
           @ [CHR 0xC3, CHR 0xA2, CHR 0xC5, CHR 0x93, CHR 0xE2, CHR 0x80, CHR 0xA6] @ '' No obvious lies detected. Surprisingly honest!'' @ [CHR 0x0A, CHR 0x0A]
           @ concat (replicate 33 [CHR 0xC3, CHR 0xA2, CHR 0xE2, CHR 0x80, CHR 0x9D]) @ [CHR 0x0A]
           @ ''TRUTH SCORE: 95/100'' @ [CHR 0x0A] @ ''VERDICT: Honest AF'' @ [CHR 0x0A]
           @ concat (replicate 33 [CHR 0xC3, CHR 0xA2, CHR 0xE2, CHR 0x80, CHR 0x9D]) @ [CHR 0x0A]"
    by (simp add: quick_roast_def quick_roast_run_def st final_score_def render_body_def
          verdict_95 show_int_95 Let_def
          render_header_def render_entry_def render_footer_def all_clear_line_def rule_line_def
          nl_def dquote_def squote_def icon_repository_def icon_stars_def icon_claim_def icon_clear_def)
  have clear: "contains ('' No obvious lies detected. Surprisingly honest!'' @ [CHR 0x0A, CHR 0x0A]) (quick_roast d)"
  proof -
    have "quick_roast d =
           ([CHR 0x0A] @ [CHR 0xC4, CHR 0x9F, CHR 0xC5, CHR 0xB8, CHR 0xE2, CHR 0x80, CHR 0x9C, CHR 0xC5, CHR 0xA0] @ '' Repository: '' @ full_name d @ [CHR 0x0A]
           @ [CHR 0xC3, CHR 0xA2, CHR 0xC2, CHR 0xAD] @ '' Stars: '' @ show_thousands (stars d) @ [CHR 0x0A, CHR 0x0A]
           @ [CHR 0xC3, CHR 0xA2, CHR 0xC5, CHR 0x93, CHR 0xE2, CHR 0x80, CHR 0xA6])
           @ ('' No obvious lies detected. Surprisingly honest!'' @ [CHR 0x0A, CHR 0x0A])
           @ (concat (replicate 33 [CHR 0xC3, CHR 0xA2, CHR 0xE2, CHR 0x80, CHR 0x9D]) @ [CHR 0x0A]
           @ ''TRUTH SCORE: 95/100'' @ [CHR 0x0A] @ ''VERDICT: Honest AF'' @ [CHR 0x0A]
           @ concat (replicate 33 [CHR 0xC3, CHR 0xA2, CHR 0xE2, CHR 0x80, CHR 0x9D]) @ [CHR 0x0A])"
      unfolding outp by simp
    then show ?thesis by (simp only: contains_middle)
  qed
  have score: "contains (''TRUTH SCORE: 95/100'' @ [CHR 0x0A] @ ''VERDICT: Honest AF'' @ [CHR 0x0A]) (quick_roast d)"
  proof -
    have "quick_roast d =
           ([CHR 0x0A] @ [CHR 0xC4, CHR 0x9F, CHR 0xC5, CHR 0xB8, CHR 0xE2, CHR 0x80, CHR 0x9C, CHR 0xC5, CHR 0xA0] @ '' Repository: '' @ full_name d @ [CHR 0x0A]
           @ [CHR 0xC3, CHR 0xA2, CHR 0xC2, CHR 0xAD] @ '' Stars: '' @ show_thousands (stars d) @ [CHR 0x0A, CHR 0x0A]
           @ [CHR 0xC3, CHR 0xA2, CHR 0xC5, CHR 0x93, CHR 0xE2, CHR 0x80, CHR 0xA6] @ '' No obvious lies detected. Surprisingly honest!'' @ [CHR 0x0A, CHR 0x0A]
           @ concat (replicate 33 [CHR 0xC3, CHR 0xA2, CHR 0xE2, CHR 0x80, CHR 0x9D]) @ [CHR 0x0A])
           @ (''TRUTH SCORE: 95/100'' @ [CHR 0x0A] @ ''VERDICT: Honest AF'' @ [CHR 0x0A])
           @ (concat (replicate 33 [CHR 0xC3, CHR 0xA2, CHR 0xE2, CHR 0x80, CHR 0x9D]) @ [CHR 0x0A])"
      unfolding outp by simp
    then show ?thesis by (simp only: contains_middle)
  qed
  have loc: "snd (run_checks d) = 100" "res_score (quick_roast_run d) = 95"
    "res_roasts (quick_roast_run d) = []" "res_verdict (quick_roast_run d) = ''Honest AF''"
    by (simp_all add: quick_roast_run_def st final_score_def verdict_95 Let_def)
  show ?thesis
    using loc outp clear score by - (intro conjI; assumption)
qed

lemma show_thousands_1234: "show_thousands 1234 = ''1,234''"
  by code_simp

theorem quick_roast_all_clear_witness:
  "\<not> performance_rule honest_repo \<and> \<not> lightweight_rule honest_repo
   \<and> \<not> production_rule honest_repo
   \<and> res_score (quick_roast_run honest_repo) = 95
   \<and> res_verdict (quick_roast_run honest_repo) = ''Honest AF''
   \<and> quick_roast honest_repo =
           [CHR 0x0A] @ [CHR 0xC4, CHR 0x9F, CHR 0xC5, CHR 0xB8, CHR 0xE2, CHR 0x80, CHR 0x9C, CHR 0xC5, CHR 0xA0] @ '' Repository: '' @ ''octo/honest'' @ [CHR 0x0A]
           @ [CHR 0xC3, CHR 0xA2, CHR 0xC2, CHR 0xAD] @ '' Stars: '' @ ''1,234'' @ [CHR 0x0A, CHR 0x0A]
           @ [CHR 0xC3, CHR 0xA2, CHR 0xC5, CHR 0x93, CHR 0xE2, CHR 0x80, CHR 0xA6] @ '' No obvious lies detected. Surprisingly honest!'' @ [CHR 0x0A, CHR 0x0A]
           @ concat (replicate 33 [CHR 0xC3, CHR 0xA2, CHR 0xE2, CHR 0x80, CHR 0x9D]) @ [CHR 0x0A]
           @ ''TRUTH SCORE: 95/100'' @ [CHR 0x0A] @ ''VERDICT: Honest AF'' @ [CHR 0x0A]
           @ concat (replicate 33 [CHR 0xC3, CHR 0xA2, CHR 0xE2, CHR 0x80, CHR 0x9D]) @ [CHR 0x0A]
   \<and> contains (''TRUTH SCORE: 95/100'' @ [CHR 0x0A] @ ''VERDICT: Honest AF'' @ [CHR 0x0A]) (quick_roast honest_repo)"
proof -
  have h1: "\<not> performance_rule honest_repo"
    by (simp add: performance_rule_def honest_repo_def)
  have h2: "\<not> lightweight_rule honest_repo"
    by (simp add: lightweight_rule_def honest_repo_def)
  have h3: "\<not> production_rule honest_repo"
    by (simp add: production_rule_def honest_repo_def)
  have f: "full_name honest_repo = ''octo/honest''" "stars honest_repo = 1234"
    by (simp_all add: honest_repo_def)
  have outp: "quick_roast honest_repo =
           [CHR 0x0A] @ [CHR 0xC4, CHR 0x9F, CHR 0xC5, CHR 0xB8, CHR 0xE2, CHR 0x80, CHR 0x9C, CHR 0xC5, CHR 0xA0] @ '' Repository: '' @ ''octo/honest'' @ [CHR 0x0A]
           @ [CHR 0xC3, CHR 0xA2, CHR 0xC2, CHR 0xAD] @ '' Stars: '' @ ''1,234'' @ [CHR 0x0A, CHR 0x0A]
           @ [CHR 0xC3, CHR 0xA2, CHR 0xC5, CHR 0x93, CHR 0xE2, CHR 0x80, CHR 0xA6] @ '' No obvious lies detected. Surprisingly honest!'' @ [CHR 0x0A, CHR 0x0A]
           @ concat (replicate 33 [CHR 0xC3, CHR 0xA2, CHR 0xE2, CHR 0x80, CHR 0x9D]) @ [CHR 0x0A]
           @ ''TRUTH SCORE: 95/100'' @ [CHR 0x0A] @ ''VERDICT: Honest AF'' @ [CHR 0x0A]
           @ concat (replicate 33 [CHR 0xC3, CHR 0xA2, CHR 0xE2, CHR 0x80, CHR 0x9D]) @ [CHR 0x0A]"
    using quick_roast_all_clear [OF h1 h2 h3] by (simp add: f show_thousands_1234)
  note main = quick_roast_all_clear [OF h1 h2 h3]
  have sc: "res_score (quick_roast_run honest_repo) = 95"
    using main by - (elim conjE, assumption)
  have vd: "res_verdict (quick_roast_run honest_repo) = ''Honest AF''"
    using main by - (elim conjE, assumption)
  have ln: "contains (''TRUTH SCORE: 95/100'' @ [CHR 0x0A] @ ''VERDICT: Honest AF'' @ [CHR 0x0A]) (quick_roast honest_repo)"
    using main by - (elim conjE, assumption)
  show ?thesis
    using h1 h2 h3 sc vd outp ln by - (intro conjI; assumption)
qed

text \<open>
  C10. The three deductions take at most 20 + 15 + 25 = 60 from the baseline, and the
  path without mismatch entries gives 95: the score of every record lies between 40 and
  95, and the verdict, which is the label of that score, is never "README Fiction".
\<close>

theorem quick_roast_score_at_least_40:
  "100 - snd (run_checks d) \<le> 20 + 15 + 25
   \<and> 40 \<le> res_score (quick_roast_run d)
   \<and> res_score (quick_roast_run d) \<le> 95
   \<and> res_verdict (quick_roast_run d) = verdict_of (res_score (quick_roast_run d))
   \<and> res_verdict (quick_roast_run d) \<noteq> ''README Fiction''"
proof -
  have c: "snd (run_checks d) \<in> {100, 80, 85, 75, 65, 60, 55, 40}"
    by (rule run_checks_score_cases)
  have s: "res_score (quick_roast_run d) = final_score (run_checks d)"
    by (simp add: quick_roast_run_def Let_def)
  have v: "res_verdict (quick_roast_run d) = verdict_of (final_score (run_checks d))"
    by (simp add: quick_roast_run_def Let_def)
  have f: "final_score (run_checks d) \<in> {95, 80, 85, 75, 65, 60, 55, 40}"
    using c run_checks_no_entry_iff [of d] by (auto simp: final_score_def)
  show ?thesis using c f unfolding s v by (auto simp: verdict_of_def)
qed

lemma claims_of_first:
  assumes "\<exists>c \<in> set (readme_claims d). category c = cat"
  obtains c cs where "claims_of cat d = c # cs"
  using assms claims_of_empty_iff [of cat d] by (cases "claims_of cat d") auto

lemma show_nat_120: "show_nat 120 = ''120''"
  by code_simp

lemma verdict_65: "verdict_of 65 = ''Marketing Spin''"
  by (simp add: verdict_of_def)

lemma spin_readme_claims:
  "extract_claims spin_readme =
     [\<lparr>category = ''performance'', claim_text = ''blazingly fast'', count = 3\<rparr>,
      \<lparr>category = ''performance'', claim_text = ''blazing'', count = 3\<rparr>,
      \<lparr>category = ''lightweight'', claim_text = ''zero dependencies'', count = 1\<rparr>]"
  by code_simp

lemma fiction_readme_claims:
  "extract_claims (spin_readme @ '' Production ready.'') =
     [\<lparr>category = ''performance'', claim_text = ''blazingly fast'', count = 3\<rparr>,
      \<lparr>category = ''performance'', claim_text = ''blazing'', count = 3\<rparr>,
      \<lparr>category = ''production'', claim_text = ''production ready'', count = 1\<rparr>,
      \<lparr>category = ''lightweight'', claim_text = ''zero dependencies'', count = 1\<rparr>]"
  by code_simp

lemma show_int_65: "show_int 65 = ''65''"
  by code_simp

lemma show_int_40: "show_int 40 = ''40''"
  by code_simp

lemma show_thousands_50000: "show_thousands 50000 = ''50,000''"
  by (simp add: show_thousands_def show_nat.simps digit_char_def, code_simp)

text \<open>
  C1, as amended. A record with a performance claim and a lightweight claim, no
  benchmarks and 120 dependencies, on which the production rule does not fire (no
  production claim, or tests present): the text returned holds, after the header, the
  performance entry and the lightweight entry, each with the text of the first claim of
  its category, and between the two rules the lines "TRUTH SCORE: 65/100" and
  "VERDICT: Marketing Spin"; the score is 100 - 20 - 15 = 65.
\<close>

theorem quick_roast_marketing_spin:
  assumes perf: "\<exists>c \<in> set (readme_claims d). category c = ''performance''"
    and light: "\<exists>c \<in> set (readme_claims d). category c = ''lightweight''"
    and bench: "\<not> has_benchmarks d"
    and count: "dep_count (deps d) = 120"
    and prod: "\<not> production_rule d"
  shows "res_roasts (quick_roast_run d) =
           [\<lparr>entry_claim = claim_text (hd (claims_of ''performance'' d)),
             entry_evidence = ''No benchmarks found'',
             entry_roast = [CHR 0x22] @ ''Trust me bro'' @ [CHR 0x22] @ '' - The Benchmark''\<rparr>,
            \<lparr>entry_claim = claim_text (hd (claims_of ''lightweight'' d)),
             entry_evidence = ''120 dependencies'',
             entry_roast = [CHR 0x27] @ claim_text (hd (claims_of ''lightweight'' d)) @ [CHR 0x27]
                           @ '' is a state of mind, not a dependency count''\<rparr>]
       \<and> res_score (quick_roast_run d) = 100 - 20 - 15
       \<and> res_score (quick_roast_run d) = 65
       \<and> res_verdict (quick_roast_run d) = ''Marketing Spin''
       \<and> quick_roast d =
           [CHR 0x0A] @ [CHR 0xC4, CHR 0x9F, CHR 0xC5, CHR 0xB8, CHR 0xE2, CHR 0x80, CHR 0x9C, CHR 0xC5, CHR 0xA0] @ '' Repository: '' @ full_name d @ [CHR 0x0A]
           @ [CHR 0xC3, CHR 0xA2, CHR 0xC2, CHR 0xAD] @ '' Stars: '' @ show_thousands (stars d) @ [CHR 0x0A, CHR 0x0A]
           @ [CHR 0xC3, CHR 0xA2, CHR 0xC5, CHR 0x92] @ '' CLAIM: '' @ [CHR 0x22] @ claim_text (hd (claims_of ''performance'' d)) @ [CHR 0x22] @ [CHR 0x0A]
           @ ''   EVIDENCE: No benchmarks found'' @ [CHR 0x0A]
           @ ''   ROAST: '' @ [CHR 0x22] @ ''Trust me bro'' @ [CHR 0x22] @ '' - The Benchmark'' @ [CHR 0x0A, CHR 0x0A]
           @ [CHR 0xC3, CHR 0xA2, CHR 0xC5, CHR 0x92] @ '' CLAIM: '' @ [CHR 0x22] @ claim_text (hd (claims_of ''lightweight'' d)) @ [CHR 0x22] @ [CHR 0x0A]
           @ ''   EVIDENCE: 120 dependencies'' @ [CHR 0x0A]
           @ ''   ROAST: '' @ [CHR 0x27] @ claim_text (hd (claims_of ''lightweight'' d)) @ [CHR 0x27] @ '' is a state of mind, not a dependency count'' @ [CHR 0x0A, CHR 0x0A]
           @ concat (replicate 33 [CHR 0xC3, CHR 0xA2, CHR 0xE2, CHR 0x80, CHR 0x9D]) @ [CHR 0x0A]
           @ ''TRUTH SCORE: 65/100'' @ [CHR 0x0A] @ ''VERDICT: Marketing Spin'' @ [CHR 0x0A]
           @ concat (replicate 33 [CHR 0xC3, CHR 0xA2, CHR 0xE2, CHR 0x80, CHR 0x9D]) @ [CHR 0x0A]
       \<and> contains (''   EVIDENCE: No benchmarks found'' @ [CHR 0x0A]) (quick_roast d)
       \<and> contains (''   EVIDENCE: 120 dependencies'' @ [CHR 0x0A]) (quick_roast d)
       \<and> contains (''TRUTH SCORE: 65/100'' @ [CHR 0x0A] @ ''VERDICT: Marketing Spin'' @ [CHR 0x0A]) (quick_roast d)"
proof -
  obtain p ps where p: "claims_of ''performance'' d = p # ps"
    using perf by (rule claims_of_first)
  obtain l ls where l: "claims_of ''lightweight'' d = l # ls"
    using light by (rule claims_of_first)
  have st: "run_checks d =
      ([\<lparr>entry_claim = claim_text p, entry_evidence = ''No benchmarks found'',
         entry_roast = dquote @ ''Trust me bro'' @ dquote @ '' - The Benchmark''\<rparr>,
        \<lparr>entry_claim = claim_text l, entry_evidence = ''120 dependencies'',
         entry_roast = squote @ claim_text l @ squote
                       @ '' is a state of mind, not a dependency count''\<rparr>], 65)"
    using bench count
    by (simp add: run_checks_def check_production_idle [OF prod] check_performance_def
          check_dependencies_def p l show_nat_120)
  have loc: "res_roasts (quick_roast_run d) =
           [\<lparr>entry_claim = claim_text (hd (claims_of ''performance'' d)),
             entry_evidence = ''No benchmarks found'',
             entry_roast = [CHR 0x22] @ ''Trust me bro'' @ [CHR 0x22] @ '' - The Benchmark''\<rparr>,
            \<lparr>entry_claim = claim_text (hd (claims_of ''lightweight'' d)),
             entry_evidence = ''120 dependencies'',
             entry_roast = [CHR 0x27] @ claim_text (hd (claims_of ''lightweight'' d)) @ [CHR 0x27]
                           @ '' is a state of mind, not a dependency count''\<rparr>]"
    "res_score (quick_roast_run d) = 100 - 20 - 15"
    "res_score (quick_roast_run d) = 65"
    "res_verdict (quick_roast_run d) = ''Marketing Spin''"
    by (simp_all add: quick_roast_run_def st final_score_def verdict_65 Let_def p l
          dquote_def squote_def)
  have outp: "quick_roast d =
           [CHR 0x0A] @ [CHR 0xC4, CHR 0x9F, CHR 0xC5, CHR 0xB8, CHR 0xE2, CHR 0x80, CHR 0x9C, CHR 0xC5, CHR 0xA0] @ '' Repository: '' @ full_name d @ [CHR 0x0A]
           @ [CHR 0xC3, CHR 0xA2, CHR 0xC2, CHR 0xAD] @ '' Stars: '' @ show_thousands (stars d) @ [CHR 0x0A, CHR 0x0A]
           @ [CHR 0xC3, CHR 0xA2, CHR 0xC5, CHR 0x92] @ '' CLAIM: '' @ [CHR 0x22] @ claim_text (hd (claims_of ''performance'' d)) @ [CHR 0x22] @ [CHR 0x0A]
           @ ''   EVIDENCE: No benchmarks found'' @ [CHR 0x0A]
           @ ''   ROAST: '' @ [CHR 0x22] @ ''Trust me bro'' @ [CHR 0x22] @ '' - The Benchmark'' @ [CHR 0x0A, CHR 0x0A]
           @ [CHR 0xC3, CHR 0xA2, CHR 0xC5, CHR 0x92] @ '' CLAIM: '' @ [CHR 0x22] @ claim_text (hd (claims_of ''lightweight'' d)) @ [CHR 0x22] @ [CHR 0x0A]
           @ ''   EVIDENCE: 120 dependencies'' @ [CHR 0x0A]
           @ ''   ROAST: '' @ [CHR 0x27] @ claim_text (hd (claims_of ''lightweight'' d)) @ [CHR 0x27] @ '' is a state of mind, not a dependency count'' @ [CHR 0x0A, CHR 0x0A]
           @ concat (replicate 33 [CHR 0xC3, CHR 0xA2, CHR 0xE2, CHR 0x80, CHR 0x9D]) @ [CHR 0x0A]
           @ ''TRUTH SCORE: 65/100'' @ [CHR 0x0A] @ ''VERDICT: Marketing Spin'' @ [CHR 0x0A]
           @ concat (replicate 33 [CHR 0xC3, CHR 0xA2, CHR 0xE2, CHR 0x80, CHR 0x9D]) @ [CHR 0x0A]"
    by (simp add: quick_roast_def quick_roast_run_def st final_score_def render_body_def
          verdict_65 show_int_65 Let_def p l
          render_header_def render_entry_def render_footer_def all_clear_line_def rule_line_def
          nl_def dquote_def squote_def icon_repository_def icon_stars_def icon_claim_def icon_clear_def)
  have e1: "contains (''   EVIDENCE: No benchmarks found'' @ [CHR 0x0A]) (quick_roast d)"
  proof -
    have "quick_roast d =
           ([CHR 0x0A] @ [CHR 0xC4, CHR 0x9F, CHR 0xC5, CHR 0xB8, CHR 0xE2, CHR 0x80, CHR 0x9C, CHR 0xC5, CHR 0xA0] @ '' Repository: '' @ full_name d @ [CHR 0x0A]
           @ [CHR 0xC3, CHR 0xA2, CHR 0xC2, CHR 0xAD] @ '' Stars: '' @ show_thousands (stars d) @ [CHR 0x0A, CHR 0x0A]
           @ [CHR 0xC3, CHR 0xA2, CHR 0xC5, CHR 0x92] @ '' CLAIM: '' @ [CHR 0x22] @ claim_text (hd (claims_of ''performance'' d)) @ [CHR 0x22] @ [CHR 0x0A])
           @ (''   EVIDENCE: No benchmarks found'' @ [CHR 0x0A])
           @ (''   ROAST: '' @ [CHR 0x22] @ ''Trust me bro'' @ [CHR 0x22] @ '' - The Benchmark'' @ [CHR 0x0A, CHR 0x0A]
           @ [CHR 0xC3, CHR 0xA2, CHR 0xC5, CHR 0x92] @ '' CLAIM: '' @ [CHR 0x22] @ claim_text (hd (claims_of ''lightweight'' d)) @ [CHR 0x22] @ [CHR 0x0A]
           @ ''   EVIDENCE: 120 dependencies'' @ [CHR 0x0A]
           @ ''   ROAST: '' @ [CHR 0x27] @ claim_text (hd (claims_of ''lightweight'' d)) @ [CHR 0x27] @ '' is a state of mind, not a dependency count'' @ [CHR 0x0A, CHR 0x0A]
           @ concat (replicate 33 [CHR 0xC3, CHR 0xA2, CHR 0xE2, CHR 0x80, CHR 0x9D]) @ [CHR 0x0A]
           @ ''TRUTH SCORE: 65/100'' @ [CHR 0x0A] @ ''VERDICT: Marketing Spin'' @ [CHR 0x0A]
           @ concat (replicate 33 [CHR 0xC3, CHR 0xA2, CHR 0xE2, CHR 0x80, CHR 0x9D]) @ [CHR 0x0A])"
      unfolding outp by simp
    then show ?thesis by (simp only: contains_middle)
  qed
  have e2: "contains (''   EVIDENCE: 120 dependencies'' @ [CHR 0x0A]) (quick_roast d)"
  proof -
    have "quick_roast d =
           ([CHR 0x0A] @ [CHR 0xC4, CHR 0x9F, CHR 0xC5, CHR 0xB8, CHR 0xE2, CHR 0x80, CHR 0x9C, CHR 0xC5, CHR 0xA0] @ '' Repository: '' @ full_name d @ [CHR 0x0A]
           @ [CHR 0xC3, CHR 0xA2, CHR 0xC2, CHR 0xAD] @ '' Stars: '' @ show_thousands (stars d) @ [CHR 0x0A, CHR 0x0A]
           @ [CHR 0xC3, CHR 0xA2, CHR 0xC5, CHR 0x92] @ '' CLAIM: '' @ [CHR 0x22] @ claim_text (hd (claims_of ''performance'' d)) @ [CHR 0x22] @ [CHR 0x0A]
           @ ''   EVIDENCE: No benchmarks found'' @ [CHR 0x0A]
           @ ''   ROAST: '' @ [CHR 0x22] @ ''Trust me bro'' @ [CHR 0x22] @ '' - The Benchmark'' @ [CHR 0x0A, CHR 0x0A]
           @ [CHR 0xC3, CHR 0xA2, CHR 0xC5, CHR 0x92] @ '' CLAIM: '' @ [CHR 0x22] @ claim_text (hd (claims_of ''lightweight'' d)) @ [CHR 0x22] @ [CHR 0x0A])
           @ (''   EVIDENCE: 120 dependencies'' @ [CHR 0x0A])
           @ (''   ROAST: '' @ [CHR 0x27] @ claim_text (hd (claims_of ''lightweight'' d)) @ [CHR 0x27] @ '' is a state of mind, not a dependency count'' @ [CHR 0x0A, CHR 0x0A]
           @ concat (replicate 33 [CHR 0xC3, CHR 0xA2, CHR 0xE2, CHR 0x80, CHR 0x9D]) @ [CHR 0x0A]
           @ ''TRUTH SCORE: 65/100'' @ [CHR 0x0A] @ ''VERDICT: Marketing Spin'' @ [CHR 0x0A]
           @ concat (replicate 33 [CHR 0xC3, CHR 0xA2, CHR 0xE2, CHR 0x80, CHR 0x9D]) @ [CHR 0x0A])"
      unfolding outp by simp
    then show ?thesis by (simp only: contains_middle)
  qed
  have score: "contains (''TRUTH SCORE: 65/100'' @ [CHR 0x0A] @ ''VERDICT: Marketing Spin'' @ [CHR 0x0A]) (quick_roast d)"
  proof -
    have "quick_roast d =
           ([CHR 0x0A] @ [CHR 0xC4, CHR 0x9F, CHR 0xC5, CHR 0xB8, CHR 0xE2, CHR 0x80, CHR 0x9C, CHR 0xC5, CHR 0xA0] @ '' Repository: '' @ full_name d @ [CHR 0x0A]
           @ [CHR 0xC3, CHR 0xA2, CHR 0xC2, CHR 0xAD] @ '' Stars: '' @ show_thousands (stars d) @ [CHR 0x0A, CHR 0x0A]
           @ [CHR 0xC3, CHR 0xA2, CHR 0xC5, CHR 0x92] @ '' CLAIM: '' @ [CHR 0x22] @ claim_text (hd (claims_of ''performance'' d)) @ [CHR 0x22] @ [CHR 0x0A]
           @ ''   EVIDENCE: No benchmarks found'' @ [CHR 0x0A]
           @ ''   ROAST: '' @ [CHR 0x22] @ ''Trust me bro'' @ [CHR 0x22] @ '' - The Benchmark'' @ [CHR 0x0A, CHR 0x0A]
           @ [CHR 0xC3, CHR 0xA2, CHR 0xC5, CHR 0x92] @ '' CLAIM: '' @ [CHR 0x22] @ claim_text (hd (claims_of ''lightweight'' d)) @ [CHR 0x22] @ [CHR 0x0A]
           @ ''   EVIDENCE: 120 dependencies'' @ [CHR 0x0A]
           @ ''   ROAST: '' @ [CHR 0x27] @ claim_text (hd (claims_of ''lightweight'' d)) @ [CHR 0x27] @ '' is a state of mind, not a dependency count'' @ [CHR 0x0A, CHR 0x0A]
           @ concat (replicate 33 [CHR 0xC3, CHR 0xA2, CHR 0xE2, CHR 0x80, CHR 0x9D]) @ [CHR 0x0A])
           @ (''TRUTH SCORE: 65/100'' @ [CHR 0x0A] @ ''VERDICT: Marketing Spin'' @ [CHR 0x0A])
           @ (concat (replicate 33 [CHR 0xC3, CHR 0xA2, CHR 0xE2, CHR 0x80, CHR 0x9D]) @ [CHR 0x0A])"
      unfolding outp by simp
    then show ?thesis by (simp only: contains_middle)
  qed
  show ?thesis
    using loc outp e1 e2 score by - (intro conjI; assumption)
qed

theorem quick_roast_marketing_spin_witness:
  "(\<exists>c \<in> set (readme_claims spin_repo). category c = ''performance'')
   \<and> (\<exists>c \<in> set (readme_claims spin_repo). category c = ''lightweight'')
   \<and> \<not> has_benchmarks spin_repo \<and> dep_count (deps spin_repo) = 120
   \<and> \<not> production_rule spin_repo
   \<and> map entry_claim (res_roasts (quick_roast_run spin_repo)) =
        [''blazingly fast'', ''zero dependencies'']
   \<and> res_score (quick_roast_run spin_repo) = 65
   \<and> res_verdict (quick_roast_run spin_repo) = ''Marketing Spin''
   \<and> quick_roast spin_repo =
           [CHR 0x0A] @ [CHR 0xC4, CHR 0x9F, CHR 0xC5, CHR 0xB8, CHR 0xE2, CHR 0x80, CHR 0x9C, CHR 0xC5, CHR 0xA0] @ '' Repository: '' @ ''octo/spin'' @ [CHR 0x0A]
           @ [CHR 0xC3, CHR 0xA2, CHR 0xC2, CHR 0xAD] @ '' Stars: '' @ ''50,000'' @ [CHR 0x0A, CHR 0x0A]
           @ [CHR 0xC3, CHR 0xA2, CHR 0xC5, CHR 0x92] @ '' CLAIM: '' @ [CHR 0x22] @ ''blazingly fast'' @ [CHR 0x22] @ [CHR 0x0A]
           @ ''   EVIDENCE: No benchmarks found'' @ [CHR 0x0A]
           @ ''   ROAST: '' @ [CHR 0x22] @ ''Trust me bro'' @ [CHR 0x22] @ '' - The Benchmark'' @ [CHR 0x0A, CHR 0x0A]
           @ [CHR 0xC3, CHR 0xA2, CHR 0xC5, CHR 0x92] @ '' CLAIM: '' @ [CHR 0x22] @ ''zero dependencies'' @ [CHR 0x22] @ [CHR 0x0A]
           @ ''   EVIDENCE: 120 dependencies'' @ [CHR 0x0A]
           @ ''   ROAST: '' @ [CHR 0x27] @ ''zero dependencies'' @ [CHR 0x27] @ '' is a state of mind, not a dependency count'' @ [CHR 0x0A, CHR 0x0A]
           @ concat (replicate 33 [CHR 0xC3, CHR 0xA2, CHR 0xE2, CHR 0x80, CHR 0x9D]) @ [CHR 0x0A]
           @ ''TRUTH SCORE: 65/100'' @ [CHR 0x0A] @ ''VERDICT: Marketing Spin'' @ [CHR 0x0A]
           @ concat (replicate 33 [CHR 0xC3, CHR 0xA2, CHR 0xE2, CHR 0x80, CHR 0x9D]) @ [CHR 0x0A]
   \<and> contains (''TRUTH SCORE: 65/100'' @ [CHR 0x0A] @ ''VERDICT: Marketing Spin'' @ [CHR 0x0A]) (quick_roast spin_repo)"
proof -
  have cl: "readme_claims spin_repo =
     [\<lparr>category = ''performance'', claim_text = ''blazingly fast'', count = 3\<rparr>,
      \<lparr>category = ''performance'', claim_text = ''blazing'', count = 3\<rparr>,
      \<lparr>category = ''lightweight'', claim_text = ''zero dependencies'', count = 1\<rparr>]"
    by (simp add: spin_repo_def spin_readme_claims)
  have h1: "\<exists>c \<in> set (readme_claims spin_repo). category c = ''performance''"
    by (simp add: cl)
  have h2: "\<exists>c \<in> set (readme_claims spin_repo). category c = ''lightweight''"
    by (simp add: cl)
  have h3: "\<not> has_benchmarks spin_repo" by (simp add: spin_repo_def)
  have h4: "dep_count (deps spin_repo) = 120" by (simp add: spin_repo_def)
  have h5: "\<not> production_rule spin_repo" by (simp add: production_rule_def cl)
  have e: "claims_of ''performance'' spin_repo =
             [\<lparr>category = ''performance'', claim_text = ''blazingly fast'', count = 3\<rparr>,
              \<lparr>category = ''performance'', claim_text = ''blazing'', count = 3\<rparr>]"
          "claims_of ''lightweight'' spin_repo =
             [\<lparr>category = ''lightweight'', claim_text = ''zero dependencies'', count = 1\<rparr>]"
    by (simp_all add: claims_of_def cl)
  have f: "full_name spin_repo = ''octo/spin''" "stars spin_repo = 50000"
    by (simp_all add: spin_repo_def)
  note main = quick_roast_marketing_spin [OF h1 h2 h3 h4 h5]
  have ro: "map entry_claim (res_roasts (quick_roast_run spin_repo)) =
        [''blazingly fast'', ''zero dependencies'']"
    using main by (simp add: e)
  have outp: "quick_roast spin_repo =
           [CHR 0x0A] @ [CHR 0xC4, CHR 0x9F, CHR 0xC5, CHR 0xB8, CHR 0xE2, CHR 0x80, CHR 0x9C, CHR 0xC5, CHR 0xA0] @ '' Repository: '' @ ''octo/spin'' @ [CHR 0x0A]
           @ [CHR 0xC3, CHR 0xA2, CHR 0xC2, CHR 0xAD] @ '' Stars: '' @ ''50,000'' @ [CHR 0x0A, CHR 0x0A]
           @ [CHR 0xC3, CHR 0xA2, CHR 0xC5, CHR 0x92] @ '' CLAIM: '' @ [CHR 0x22] @ ''blazingly fast'' @ [CHR 0x22] @ [CHR 0x0A]
           @ ''   EVIDENCE: No benchmarks found'' @ [CHR 0x0A]
           @ ''   ROAST: '' @ [CHR 0x22] @ ''Trust me bro'' @ [CHR 0x22] @ '' - The Benchmark'' @ [CHR 0x0A, CHR 0x0A]
           @ [CHR 0xC3, CHR 0xA2, CHR 0xC5, CHR 0x92] @ '' CLAIM: '' @ [CHR 0x22] @ ''zero dependencies'' @ [CHR 0x22] @ [CHR 0x0A]
           @ ''   EVIDENCE: 120 dependencies'' @ [CHR 0x0A]
           @ ''   ROAST: '' @ [CHR 0x27] @ ''zero dependencies'' @ [CHR 0x27] @ '' is a state of mind, not a dependency count'' @ [CHR 0x0A, CHR 0x0A]
           @ concat (replicate 33 [CHR 0xC3, CHR 0xA2, CHR 0xE2, CHR 0x80, CHR 0x9D]) @ [CHR 0x0A]
           @ ''TRUTH SCORE: 65/100'' @ [CHR 0x0A] @ ''VERDICT: Marketing Spin'' @ [CHR 0x0A]
           @ concat (replicate 33 [CHR 0xC3, CHR 0xA2, CHR 0xE2, CHR 0x80, CHR 0x9D]) @ [CHR 0x0A]"
    using main by (simp add: e f show_thousands_50000)
  have sc: "res_score (quick_roast_run spin_repo) = 65"
    using main by - (elim conjE, assumption)
  have vd: "res_verdict (quick_roast_run spin_repo) = ''Marketing Spin''"
    using main by - (elim conjE, assumption)
  have ln: "contains (''TRUTH SCORE: 65/100'' @ [CHR 0x0A] @ ''VERDICT: Marketing Spin'' @ [CHR 0x0A]) (quick_roast spin_repo)"
    using main by - (elim conjE, assumption)
  show ?thesis
    using h1 h2 h3 h4 h5 ro sc vd outp ln by - (intro conjI; assumption)
qed

text \<open>
  The claim as first stated does not ask that the production rule stays silent. The
  document with three times "blazingly fast", once "zero dependencies" and the sentence
  "Production ready.", in a repository without benchmarks and without tests that has 120
  dependencies, gets all three entries, the score 100 - 20 - 15 - 25 = 40 and the lines
  "TRUTH SCORE: 40/100" and "VERDICT: Creative Liberties".
\<close>

theorem quick_roast_marketing_spin_counterexample:
  "readme_claims fiction_repo =
     [\<lparr>category = ''performance'', claim_text = ''blazingly fast'', count = 3\<rparr>,
      \<lparr>category = ''performance'', claim_text = ''blazing'', count = 3\<rparr>,
      \<lparr>category = ''production'', claim_text = ''production ready'', count = 1\<rparr>,
      \<lparr>category = ''lightweight'', claim_text = ''zero dependencies'', count = 1\<rparr>]
   \<and> \<not> has_benchmarks fiction_repo \<and> dep_count (deps fiction_repo) = 120
   \<and> map entry_claim (res_roasts (quick_roast_run fiction_repo)) =
        [''blazingly fast'', ''zero dependencies'', ''production ready'']
   \<and> res_score (quick_roast_run fiction_repo) = 40
   \<and> res_score (quick_roast_run fiction_repo) \<noteq> 65
   \<and> res_verdict (quick_roast_run fiction_repo) = ''Creative Liberties''
   \<and> res_verdict (quick_roast_run fiction_repo) \<noteq> ''Marketing Spin''
   \<and> quick_roast fiction_repo =
           [CHR 0x0A] @ [CHR 0xC4, CHR 0x9F, CHR 0xC5, CHR 0xB8, CHR 0xE2, CHR 0x80, CHR 0x9C, CHR 0xC5, CHR 0xA0] @ '' Repository: '' @ ''octo/spin'' @ [CHR 0x0A]
           @ [CHR 0xC3, CHR 0xA2, CHR 0xC2, CHR 0xAD] @ '' Stars: '' @ ''50,000'' @ [CHR 0x0A, CHR 0x0A]
           @ [CHR 0xC3, CHR 0xA2, CHR 0xC5, CHR 0x92] @ '' CLAIM: '' @ [CHR 0x22] @ ''blazingly fast'' @ [CHR 0x22] @ [CHR 0x0A]
           @ ''   EVIDENCE: No benchmarks found'' @ [CHR 0x0A]
           @ ''   ROAST: '' @ [CHR 0x22] @ ''Trust me bro'' @ [CHR 0x22] @ '' - The Benchmark'' @ [CHR 0x0A, CHR 0x0A]
           @ [CHR 0xC3, CHR 0xA2, CHR 0xC5, CHR 0x92] @ '' CLAIM: '' @ [CHR 0x22] @ ''zero dependencies'' @ [CHR 0x22] @ [CHR 0x0A]
           @ ''   EVIDENCE: 120 dependencies'' @ [CHR 0x0A]
           @ ''   ROAST: '' @ [CHR 0x27] @ ''zero dependencies'' @ [CHR 0x27] @ '' is a state of mind, not a dependency count'' @ [CHR 0x0A, CHR 0x0A]
           @ [CHR 0xC3, CHR 0xA2, CHR 0xC5, CHR 0x92] @ '' CLAIM: '' @ [CHR 0x22] @ ''production ready'' @ [CHR 0x22] @ [CHR 0x0A]
           @ ''   EVIDENCE: No tests detected'' @ [CHR 0x0A]
           @ ''   ROAST: Production ready for chaos engineering'' @ [CHR 0x0A, CHR 0x0A]
           @ concat (replicate 33 [CHR 0xC3, CHR 0xA2, CHR 0xE2, CHR 0x80, CHR 0x9D]) @ [CHR 0x0A]
           @ ''TRUTH SCORE: 40/100'' @ [CHR 0x0A] @ ''VERDICT: Creative Liberties'' @ [CHR 0x0A]
           @ concat (replicate 33 [CHR 0xC3, CHR 0xA2, CHR 0xE2, CHR 0x80, CHR 0x9D]) @ [CHR 0x0A]"
proof -
  have cl: "readme_claims fiction_repo =
     [\<lparr>category = ''performance'', claim_text = ''blazingly fast'', count = 3\<rparr>,
      \<lparr>category = ''performance'', claim_text = ''blazing'', count = 3\<rparr>,
      \<lparr>category = ''production'', claim_text = ''production ready'', count = 1\<rparr>,
      \<lparr>category = ''lightweight'', claim_text = ''zero dependencies'', count = 1\<rparr>]"
    by (simp add: fiction_repo_def fiction_readme_claims)
  have ev: "\<not> has_benchmarks fiction_repo" "dep_count (deps fiction_repo) = 120"
    "\<not> has_tests fiction_repo"
    by (simp_all add: fiction_repo_def spin_repo_def)
  have f: "full_name fiction_repo = ''octo/spin''" "stars fiction_repo = 50000"
    by (simp_all add: fiction_repo_def spin_repo_def)
  have st: "run_checks fiction_repo =
      ([\<lparr>entry_claim = ''blazingly fast'', entry_evidence = ''No benchmarks found'',
         entry_roast = dquote @ ''Trust me bro'' @ dquote @ '' - The Benchmark''\<rparr>,
        \<lparr>entry_claim = ''zero dependencies'', entry_evidence = ''120 dependencies'',
         entry_roast = squote @ ''zero dependencies'' @ squote
                       @ '' is a state of mind, not a dependency count''\<rparr>,
        \<lparr>entry_claim = ''production ready'', entry_evidence = ''No tests detected'',
         entry_roast = ''Production ready for chaos engineering''\<rparr>], 40)"
    by (simp add: run_checks_def check_performance_def check_dependencies_def
          check_production_def claims_of_def cl ev show_nat_120)
  have sc: "res_score (quick_roast_run fiction_repo) = 40"
    by (simp add: quick_roast_run_def Let_def final_score_def st)
  have vd: "res_verdict (quick_roast_run fiction_repo) = ''Creative Liberties''"
    by (simp add: quick_roast_run_def Let_def final_score_def st verdict_of_def)
  have ro: "map entry_claim (res_roasts (quick_roast_run fiction_repo)) =
        [''blazingly fast'', ''zero dependencies'', ''production ready'']"
    by (simp add: quick_roast_run_def Let_def st)
  have outp: "quick_roast fiction_repo =
           [CHR 0x0A] @ [CHR 0xC4, CHR 0x9F, CHR 0xC5, CHR 0xB8, CHR 0xE2, CHR 0x80, CHR 0x9C, CHR 0xC5, CHR 0xA0] @ '' Repository: '' @ ''octo/spin'' @ [CHR 0x0A]
           @ [CHR 0xC3, CHR 0xA2, CHR 0xC2, CHR 0xAD] @ '' Stars: '' @ ''50,000'' @ [CHR 0x0A, CHR 0x0A]
           @ [CHR 0xC3, CHR 0xA2, CHR 0xC5, CHR 0x92] @ '' CLAIM: '' @ [CHR 0x22] @ ''blazingly fast'' @ [CHR 0x22] @ [CHR 0x0A]
           @ ''   EVIDENCE: No benchmarks found'' @ [CHR 0x0A]
           @ ''   ROAST: '' @ [CHR 0x22] @ ''Trust me bro'' @ [CHR 0x22] @ '' - The Benchmark'' @ [CHR 0x0A, CHR 0x0A]
           @ [CHR 0xC3, CHR 0xA2, CHR 0xC5, CHR 0x92] @ '' CLAIM: '' @ [CHR 0x22] @ ''zero dependencies'' @ [CHR 0x22] @ [CHR 0x0A]
           @ ''   EVIDENCE: 120 dependencies'' @ [CHR 0x0A]
           @ ''   ROAST: '' @ [CHR 0x27] @ ''zero dependencies'' @ [CHR 0x27] @ '' is a state of mind, not a dependency count'' @ [CHR 0x0A, CHR 0x0A]
           @ [CHR 0xC3, CHR 0xA2, CHR 0xC5, CHR 0x92] @ '' CLAIM: '' @ [CHR 0x22] @ ''production ready'' @ [CHR 0x22] @ [CHR 0x0A]
           @ ''   EVIDENCE: No tests detected'' @ [CHR 0x0A]
           @ ''   ROAST: Production ready for chaos engineering'' @ [CHR 0x0A, CHR 0x0A]
           @ concat (replicate 33 [CHR 0xC3, CHR 0xA2, CHR 0xE2, CHR 0x80, CHR 0x9D]) @ [CHR 0x0A]
           @ ''TRUTH SCORE: 40/100'' @ [CHR 0x0A] @ ''VERDICT: Creative Liberties'' @ [CHR 0x0A]
           @ concat (replicate 33 [CHR 0xC3, CHR 0xA2, CHR 0xE2, CHR 0x80, CHR 0x9D]) @ [CHR 0x0A]"
    by (simp add: quick_roast_def quick_roast_run_def st final_score_def render_body_def
          verdict_of_def show_int_40 Let_def f show_thousands_50000
          render_header_def render_entry_def render_footer_def all_clear_line_def rule_line_def
          nl_def dquote_def squote_def icon_repository_def icon_stars_def icon_claim_def icon_clear_def)
  have ne: "res_score (quick_roast_run fiction_repo) \<noteq> 65"
    using sc by simp
  have nv: "res_verdict (quick_roast_run fiction_repo) \<noteq> ''Marketing Spin''"
    using vd by simp
  show ?thesis
    using cl ev(1,2) ro sc ne vd nv outp by - (intro conjI; assumption)
qed

section \<open>Properties of the claim extractor\<close>

lemma scan_pattern_foldl:
  "foldl (scan_pattern fa d cat) acc ps =
     acc @ [\<lparr>category = cat, claim_text = hd (fa p d), count = length (fa p d)\<rparr>.
              p \<leftarrow> ps, fa p d \<noteq> []]"
  by (induction ps arbitrary: acc) (auto simp: scan_pattern_def split: list.splits)

lemma scan_category_foldl:
  "foldl (scan_category fa d) acc es =
     acc @ [\<lparr>category = cat, claim_text = hd (fa p d), count = length (fa p d)\<rparr>.
              (cat, ps) \<leftarrow> es, p \<leftarrow> ps, fa p d \<noteq> []]"
  by (induction es arbitrary: acc) (auto simp: scan_pattern_foldl)

lemma categories_in_order:
  "map fst patterns =
     [''performance'', ''simplicity'', ''production'', ''lightweight'', ''modern'',
      ''comprehensive'']"
  by (simp add: patterns_def)

text \<open>
  C2. Whatever the document, the nested iteration of the extractor gives the list the
  specification describes: for each category in the order of declaration and each of
  its patterns in order, one record when the pattern has a match in the lowercased
  document, with the first match as its text and the number of matches as its count.
  The equation holds for every matching function in the place of \<open>re.findall\<close>, so
  also for the one modelled here. One category can give several records: a document
  with "Blazingly fast" gives two performance records, one for each pattern that matches.
\<close>

theorem extract_claims_records:
  "extract_claims_with fa readme = claim_records fa readme
   \<and> extract_claims readme = claim_records findall readme
   \<and> map fst patterns =
       [''performance'', ''simplicity'', ''production'', ''lightweight'', ''modern'',
        ''comprehensive'']
   \<and> extract_claims ''Blazingly fast and easy. Really BLAZINGLY  fast.'' =
       [\<lparr>category = ''performance'', claim_text = ''blazingly fast'', count = 2\<rparr>,
        \<lparr>category = ''performance'', claim_text = ''blazing'', count = 2\<rparr>,
        \<lparr>category = ''simplicity'', claim_text = ''easy'', count = 1\<rparr>]"
proof -
  have a: "extract_claims_with f r = claim_records f r" for f r
    by (simp add: extract_claims_with_def claim_records_def scan_category_foldl Let_def)
  have b: "extract_claims ''Blazingly fast and easy. Really BLAZINGLY  fast.'' =
       [\<lparr>category = ''performance'', claim_text = ''blazingly fast'', count = 2\<rparr>,
        \<lparr>category = ''performance'', claim_text = ''blazing'', count = 2\<rparr>,
        \<lparr>category = ''simplicity'', claim_text = ''easy'', count = 1\<rparr>]"
    by code_simp
  show ?thesis
    using a b categories_in_order by (simp add: extract_claims_def)
qed

section \<open>Properties of the prompt composer\<close>

lemma template_age_line:
  "\<exists>a b. ANALYSIS_TEMPLATE k = a @ (''- Age: '' @ f_age k @ nl) @ b"
  unfolding ANALYSIS_TEMPLATE_def
  apply (rule exI[of _ "''Analyze this GitHub repository and generate a roast:'' @ nl
     @ nl
     @ ''REPOSITORY: '' @ f_name k @ nl
     @ ''STARS: '' @ f_stars k @ '' '' @ star_symbol @ nl
     @ ''DESCRIPTION: '' @ f_description k @ nl
     @ nl
     @ ''README CLAIMS DETECTED:'' @ nl
     @ f_claims k @ nl
     @ nl
     @ ''ACTUAL EVIDENCE:'' @ nl
     @ ''- Dependencies: '' @ f_dep_count k @ '' ('' @ f_dep_type k @ '')'' @ nl
     @ ''- Has Tests: '' @ f_has_tests k @ nl
     @ ''- Test Coverage: '' @ f_test_coverage k @ nl
     @ ''- Has Benchmarks: '' @ f_has_benchmarks k @ nl
     @ ''- Has CI/CD: '' @ f_has_ci k @ nl
     @ ''- Has Documentation: '' @ f_has_docs k @ nl
     @ ''- Last Commit: '' @ f_last_commit k @ nl
     @ ''- Commit Activity (90 days): '' @ f_commit_count k @ '' commits'' @ nl
     @ ''- Open Issues: '' @ f_open_issues k @ nl
     @ ''- Issue Close Rate: '' @ f_issue_close_rate k @ ''%'' @ nl"])
  apply (rule exI[of _ "''- License: '' @ f_license k @ nl
     @ nl
     @ ''SPECIFIC CLAIMS TO VERIFY:'' @ nl
     @ f_specific_claims k @ nl
     @ nl
     @ ''Generate a witty, sarcastic but fair roast. Focus on the gap between claims and reality.'' @ nl
     @ ''Be creative with your roasts - make them memorable and quotable.'' @ nl
     @ ''If the repo is actually honest and well-maintained, acknowledge that too.'' @ nl"])
  apply (simp only: append_assoc)
  done

lemma template_coverage_line:
  "\<exists>a b. ANALYSIS_TEMPLATE k = a @ (''- Test Coverage: '' @ f_test_coverage k @ nl) @ b"
  unfolding ANALYSIS_TEMPLATE_def
  apply (rule exI[of _ "''Analyze this GitHub repository and generate a roast:'' @ nl
     @ nl
     @ ''REPOSITORY: '' @ f_name k @ nl
     @ ''STARS: '' @ f_stars k @ '' '' @ star_symbol @ nl
     @ ''DESCRIPTION: '' @ f_description k @ nl
     @ nl
     @ ''README CLAIMS DETECTED:'' @ nl
     @ f_claims k @ nl
     @ nl
     @ ''ACTUAL EVIDENCE:'' @ nl
     @ ''- Dependencies: '' @ f_dep_count k @ '' ('' @ f_dep_type k @ '')'' @ nl
     @ ''- Has Tests: '' @ f_has_tests k @ nl"])
  apply (rule exI[of _ "''- Has Benchmarks: '' @ f_has_benchmarks k @ nl
     @ ''- Has CI/CD: '' @ f_has_ci k @ nl
     @ ''- Has Documentation: '' @ f_has_docs k @ nl
     @ ''- Last Commit: '' @ f_last_commit k @ nl
     @ ''- Commit Activity (90 days): '' @ f_commit_count k @ '' commits'' @ nl
     @ ''- Open Issues: '' @ f_open_issues k @ nl
     @ ''- Issue Close Rate: '' @ f_issue_close_rate k @ ''%'' @ nl
     @ ''- Age: '' @ f_age k @ nl
     @ ''- License: '' @ f_license k @ nl
     @ nl
     @ ''SPECIFIC CLAIMS TO VERIFY:'' @ nl
     @ f_specific_claims k @ nl
     @ nl
     @ ''Generate a witty, sarcastic but fair roast. Focus on the gap between claims and reality.'' @ nl
     @ ''Be creative with your roasts - make them memorable and quotable.'' @ nl
     @ ''If the repo is actually honest and well-maintained, acknowledge that too.'' @ nl"])
  apply (simp only: append_assoc)
  done

lemma prompt_contains_template_part:
  assumes "\<exists>a b. ANALYSIS_TEMPLATE (prompt_fields sf now d) = a @ line @ b"
  shows "contains line (build_analysis_prompt sf now d spicy)"
proof -
  obtain a b where e: "ANALYSIS_TEMPLATE (prompt_fields sf now d) = a @ line @ b"
    using assms by auto
  show ?thesis
  proof (cases spicy)
    case True
    have "build_analysis_prompt sf now d spicy = a @ line @ (b @ nl @ SPICY_MODE_ADDITION)"
      using True e by (simp add: build_analysis_prompt_def)
    then show ?thesis by (simp only: contains_middle)
  next
    case False
    have "build_analysis_prompt sf now d spicy = a @ line @ b"
      using False e by (simp add: build_analysis_prompt_def)
    then show ?thesis by (simp only: contains_middle)
  qed
qed

lemma prompt_coverage_line:
  "contains (''- Test Coverage: '' @ coverage_text (test_coverage d) @ nl)
     (build_analysis_prompt sf now d spicy)"
proof -
  have "f_test_coverage (prompt_fields sf now d) = coverage_text (test_coverage d)"
    by (simp add: prompt_fields_def)
  then show ?thesis
    using template_coverage_line [of "prompt_fields sf now d"]
    by (intro prompt_contains_template_part) simp
qed

lemma prompt_age_line:
  "contains (''- Age: '' @ age_text (days_between (updated_at d) (created_at d)) @ nl)
     (build_analysis_prompt sf now d spicy)"
proof -
  have "f_age (prompt_fields sf now d) = age_text (days_between (updated_at d) (created_at d))"
    by (simp add: prompt_fields_def)
  then show ?thesis
    using template_age_line [of "prompt_fields sf now d"]
    by (intro prompt_contains_template_part) simp
qed

lemma age_text_examples:
  "age_text 10 = ''10 days old (fresh!)''"
  "age_text 59 = ''1 months old''"
  "age_text 364 = ''12 months old''"
  "age_text 400 = ''1 years old''"
  "age_text 729 = ''1 years old''"
  by code_simp+

text \<open>
  C6, as amended. A gap of N days between the update and the creation time stamps is
  rendered as "N days old (fresh!)" when N < 30, as "(N div 30) months old" when
  30 \<le> N < 365 and as "(N div 365) years old" otherwise, the quotients rounded down; the
  text is the Age line of the prompt. A gap of 10 days gives "10 days old (fresh!)", a
  gap of 400 days "1 years old".
\<close>

theorem age_bucket:
  "age_text N =
     (if N < 30 then show_int N @ '' days old (fresh!)''
      else if N < 365 then show_int (N div 30) @ '' months old''
      else show_int (N div 365) @ '' years old'')
   \<and> f_age (prompt_fields sf now d) = age_text ((updated_at d - created_at d) div 86400)
   \<and> contains (''- Age: '' @ age_text ((updated_at d - created_at d) div 86400) @ nl)
         (build_analysis_prompt sf now d spicy)
   \<and> age_text 10 = ''10 days old (fresh!)''
   \<and> age_text 59 = ''1 months old''
   \<and> age_text 400 = ''1 years old''
   \<and> age_text 729 = ''1 years old''"
proof -
  have a: "age_text N =
     (if N < 30 then show_int N @ '' days old (fresh!)''
      else if N < 365 then show_int (N div 30) @ '' months old''
      else show_int (N div 365) @ '' years old'')"
    by (simp add: age_text_def)
  have b: "f_age (prompt_fields sf now d) = age_text ((updated_at d - created_at d) div 86400)"
    by (simp add: prompt_fields_def days_between_def seconds_per_day_def)
  have c: "contains (''- Age: '' @ age_text ((updated_at d - created_at d) div 86400) @ nl)
         (build_analysis_prompt sf now d spicy)"
    using prompt_age_line [of d sf now spicy]
    by (simp add: days_between_def seconds_per_day_def)
  show ?thesis
    using a b c age_text_examples by simp
qed

text \<open>
  The claim as first stated gives the text "10 days old" for a gap of 10 days; the
  function appends " (fresh!)" in that bucket.
\<close>

theorem age_bucket_counterexample:
  "days_between (updated_at spin_repo) (created_at spin_repo) = 10
   \<and> f_age (prompt_fields (\<lambda>u::unit. ''0.0'') 864000 spin_repo) = ''10 days old (fresh!)''
   \<and> age_text 10 \<noteq> ''10 days old''"
proof -
  have a: "days_between (updated_at spin_repo) (created_at spin_repo) = 10"
    by (simp add: spin_repo_def days_between_def seconds_per_day_def)
  have b: "age_text 10 = ''10 days old (fresh!)''"
    by (rule age_text_examples)
  have c: "f_age (prompt_fields (\<lambda>u::unit. ''0.0'') 864000 spin_repo) = age_text 10"
    using a by (simp add: prompt_fields_def)
  show ?thesis
    using a b c by simp
qed

text \<open>
  C8. The analyzer reports the coverage 0 when it finds no tests and nothing when it
  cannot tell. The prompt composer renders the field with \<open>or "Unknown"\<close>, and the
  number 0 is false in Python: for the record \<open>spin_repo\<close>, whose coverage is the
  present value 0, the prompt holds the line "- Test Coverage: Unknown", the same line
  as for an absent value.
\<close>

theorem coverage_zero_renders_unknown:
  "test_coverage spin_repo = Some 0
   \<and> coverage_text (Some 0) = ''Unknown''
   \<and> coverage_text None = ''Unknown''
   \<and> coverage_text (Some 45) = ''45''
   \<and> f_test_coverage (prompt_fields (\<lambda>u::unit. ''0.0'') 864000 spin_repo) = ''Unknown''
   \<and> contains (''- Test Coverage: Unknown'' @ nl)
         (build_analysis_prompt (\<lambda>u::unit. ''0.0'') 864000 spin_repo False)"
proof -
  have a: "test_coverage spin_repo = Some 0"
    by (simp add: spin_repo_def)
  have b: "coverage_text (Some 0) = ''Unknown''" "coverage_text None = ''Unknown''"
    by (simp_all add: coverage_text_def)
  have c: "coverage_text (Some 45) = ''45''"
    by code_simp
  have d: "f_test_coverage (prompt_fields (\<lambda>u::unit. ''0.0'') 864000 spin_repo) = ''Unknown''"
    by (simp add: prompt_fields_def a b)
  have e: "contains (''- Test Coverage: Unknown'' @ nl)
         (build_analysis_prompt (\<lambda>u::unit. ''0.0'') 864000 spin_repo False)"
    using prompt_coverage_line [of spin_repo "\<lambda>u::unit. ''0.0''" 864000 False]
    by (simp add: a b)
  show ?thesis
    using a b c d e by simp
qed

section \<open>Properties of the issue statistics\<close>

lemma close_rate_of_total:
  "close_rate_of ops c t =
     Inr (if t = 0 then PyInt 0
          else PyFloat (round1 ops (fmul ops (fdiv ops (int c) (int t)) 100)))"
  by (simp add: close_rate_of_def true_div_def)

lemma issue_stats_body_ok:
  "issue_stats_body ops (Inr a) (Inr b) =
     Inr \<lparr>open_count = a, closed_count = b, total_count = a + b,
          stats_close_rate =
            (if a + b = 0 then PyInt 0
             else PyFloat (round1 ops (fmul ops (fdiv ops (int b) (int (a + b))) 100)))\<rparr>"
  by (simp add: issue_stats_body_def close_rate_of_total Let_def)

lemma get_issue_stats_cases:
  "get_issue_stats ops oq cq =
     (case (oq, cq) of
        (Inr a, Inr b) \<Rightarrow>
          \<lparr>open_count = a, closed_count = b, total_count = a + b,
           stats_close_rate =
             (if a + b = 0 then PyInt 0
              else PyFloat (round1 ops (fmul ops (fdiv ops (int b) (int (a + b))) 100)))\<rparr>
      | _ \<Rightarrow> default_issue_stats)"
  by (cases oq; cases cq)
     (simp_all add: get_issue_stats_def issue_stats_body_ok, simp_all add: issue_stats_body_def)

text \<open>
  C9. Every record that \<open>_get_issue_stats\<close> returns, the default of the failure path
  included, has total = open + closed; when the total is 0 its close rate is the integer
  0, and otherwise it is \<open>round(closed / total * 100, 1)\<close>. The body of the \<open>try\<close>
  raises only what the two platform queries raise: with both counts read, it returns a
  record, so the division is never asked to divide by zero.
\<close>

theorem issue_stats_close_rate:
  "total_count (get_issue_stats ops oq cq)
     = open_count (get_issue_stats ops oq cq) + closed_count (get_issue_stats ops oq cq)
   \<and> (total_count (get_issue_stats ops oq cq) = 0
        \<longrightarrow> stats_close_rate (get_issue_stats ops oq cq) = PyInt 0)
   \<and> (total_count (get_issue_stats ops oq cq) \<noteq> 0
        \<longrightarrow> stats_close_rate (get_issue_stats ops oq cq) =
              PyFloat (round1 ops (fmul ops
                (fdiv ops (int (closed_count (get_issue_stats ops oq cq)))
                          (int (total_count (get_issue_stats ops oq cq)))) 100)))
   \<and> (\<exists>stats. issue_stats_body ops (Inr a) (Inr b) = Inr stats)
   \<and> issue_stats_body ops (Inr a) (Inr b) \<noteq> Inl ZeroDivisionError
   \<and> (\<forall>e. issue_stats_body ops oq cq = Inl e \<longrightarrow> oq = Inl e \<or> cq = Inl e)"
proof -
  have body: "\<exists>stats. issue_stats_body ops (Inr a) (Inr b) = Inr stats"
    by (simp add: issue_stats_body_ok)
  have nz: "issue_stats_body ops (Inr a) (Inr b) \<noteq> Inl ZeroDivisionError"
    by (simp add: issue_stats_body_ok)
  have err: "\<forall>e. issue_stats_body ops oq cq = Inl e \<longrightarrow> oq = Inl e \<or> cq = Inl e"
    by (cases oq; cases cq) (simp_all add: issue_stats_body_ok, simp_all add: issue_stats_body_def)
  have rec: "total_count (get_issue_stats ops oq cq)
     = open_count (get_issue_stats ops oq cq) + closed_count (get_issue_stats ops oq cq)
   \<and> (total_count (get_issue_stats ops oq cq) = 0
        \<longrightarrow> stats_close_rate (get_issue_stats ops oq cq) = PyInt 0)
   \<and> (total_count (get_issue_stats ops oq cq) \<noteq> 0
        \<longrightarrow> stats_close_rate (get_issue_stats ops oq cq) =
              PyFloat (round1 ops (fmul ops
                (fdiv ops (int (closed_count (get_issue_stats ops oq cq)))
                          (int (total_count (get_issue_stats ops oq cq)))) 100)))"
    by (cases oq; cases cq) (simp_all add: get_issue_stats_cases default_issue_stats_def)
  show ?thesis
    using rec body nz err by blast
qed

theorem issue_stats_close_rate_witness:
  "total_count (get_issue_stats sym_ops (Inr 0) (Inr 0)) = 0
   \<and> stats_close_rate (get_issue_stats sym_ops (Inr 0) (Inr 0)) = PyInt 0
   \<and> total_count (get_issue_stats sym_ops (Inl OtherError) (Inr 5)) = 0
   \<and> stats_close_rate (get_issue_stats sym_ops (Inl OtherError) (Inr 5)) = PyInt 0
   \<and> total_count (get_issue_stats sym_ops (Inr 1) (Inr 2)) = 3
   \<and> stats_close_rate (get_issue_stats sym_ops (Inr 1) (Inr 2)) =
        PyFloat (Round1 (Times (Quot 2 3) 100))
   \<and> issue_stats_body sym_ops (Inr 1) (Inl OtherError) = Inl OtherError"
proof -
  have t0: "total_count (get_issue_stats sym_ops (Inr 0) (Inr 0)) = 0"
    by (simp add: get_issue_stats_cases)
  have t1: "total_count (get_issue_stats sym_ops (Inl OtherError) (Inr 5)) = 0"
    by (simp add: get_issue_stats_cases default_issue_stats_def)
  have t2: "total_count (get_issue_stats sym_ops (Inr 1) (Inr 2)) = 3"
    "closed_count (get_issue_stats sym_ops (Inr 1) (Inr 2)) = 2"
    by (simp_all add: get_issue_stats_cases)
  have t3: "issue_stats_body sym_ops (Inr 1) (Inl OtherError) = Inl OtherError"
    by (simp add: issue_stats_body_def)
  show ?thesis
    using t0 t1 t2 t3
      issue_stats_close_rate [of sym_ops "Inr 0" "Inr 0" 0 0]
      issue_stats_close_rate [of sym_ops "Inl OtherError" "Inr 5" 0 0]
      issue_stats_close_rate [of sym_ops "Inr 1" "Inr 2" 1 2]
    by (simp add: sym_ops_def)
qed

section \<open>Properties of the parsing of repository references\<close>

lemma map_option_append_Nil: "map_option ((@) []) x = x"
  by (cases x) auto

lemma match_lit:
  "match_here (lit p @ r) s =
     (if starts_with p s then map_option ((@) p) (match_here r (drop (length p) s)) else None)"
proof (induction p arbitrary: s)
  case Nil
  then show ?case by (simp add: lit_def map_option_append_Nil)
next
  case (Cons a p)
  have l: "lit (a # p) @ r = One (Ch a) # (lit p @ r)" by (simp add: lit_def)
  show ?case
  proof (cases s)
    case Nil
    then show ?thesis by (simp add: l)
  next
    case (Cons c cs)
    then show ?thesis using Cons.IH [of cs]
      by (auto simp: l option.map_comp comp_def)
  qed
qed

lemma match_many_last:
  "match_here [Many (NotCh x)] s =
     (if takeWhile (\<lambda>c. c \<noteq> x) s = [] then None else Some (takeWhile (\<lambda>c. c \<noteq> x) s))"
  by (induction s) (auto split: option.splits)

lemma match_one_other: "c \<noteq> x \<Longrightarrow> match_here (One (Ch x) # r) (c # cs) = None"
  by simp

lemma match_many_then:
  "match_here (Many (NotCh x) # One (Ch x) # r) s =
     (case dropWhile (\<lambda>c. c \<noteq> x) s of
        [] \<Rightarrow> None
      | _ # rest \<Rightarrow>
          if takeWhile (\<lambda>c. c \<noteq> x) s = [] then None
          else map_option (\<lambda>m. takeWhile (\<lambda>c. c \<noteq> x) s @ x # m) (match_here r rest))"
proof (induction s)
  case Nil
  then show ?case by simp
next
  case (Cons c cs)
  let ?P = "\<lambda>c. c \<noteq> x"
  show ?case
  proof (cases "c = x")
    case True
    then show ?thesis by simp
  next
    case cx: False
    have step: "match_here (Many (NotCh x) # One (Ch x) # r) (c # cs) =
        (case match_here (Many (NotCh x) # One (Ch x) # r) cs of
           Some m \<Rightarrow> Some (c # m)
         | None \<Rightarrow> map_option (Cons c) (match_here (One (Ch x) # r) cs))"
      using cx by simp
    show ?thesis
    proof (cases "dropWhile ?P cs")
      case Nil
      then have all: "\<forall>y \<in> set cs. y \<noteq> x" by (simp add: dropWhile_eq_Nil_conv)
      have none: "match_here (Many (NotCh x) # One (Ch x) # r) cs = None"
        using Cons.IH Nil by simp
      have fb: "match_here (One (Ch x) # r) cs = None"
        using all by (cases cs) auto
      have dw: "dropWhile ?P (c # cs) = []" using cx Nil by simp
      show ?thesis by (simp only: step none fb dw) simp
    next
      case (Cons y rest)
      then have y: "y = x" and cs: "cs = takeWhile ?P cs @ x # rest"
        by (auto simp: dropWhile_eq_Cons_conv)
      show ?thesis
      proof (cases "takeWhile ?P cs = []")
        case True
        then have cs': "cs = x # rest" using cs by simp
        have none: "match_here (Many (NotCh x) # One (Ch x) # r) cs = None"
          by (subst cs') simp
        have fb: "match_here (One (Ch x) # r) cs = map_option (Cons x) (match_here r rest)"
          by (subst cs') simp
        show ?thesis using cx
          by (simp only: step none fb) (simp add: cs' option.map_comp comp_def)
      next
        case False
        then obtain c' cs'' where c': "cs = c' # cs''" "c' \<noteq> x"
          by (cases cs) (auto split: if_splits)
        have fb: "match_here (One (Ch x) # r) cs = None"
          using c' by simp
        have ih: "match_here (Many (NotCh x) # One (Ch x) # r) cs =
            map_option (\<lambda>m. takeWhile ?P cs @ x # m) (match_here r rest)"
          using Cons.IH Cons False by simp
        show ?thesis using cx Cons False
          by (simp only: step ih fb) (cases "match_here r rest"; simp)
      qed
    qed
  qed
qed

lemma search_sound:
  "search r s = Some m \<Longrightarrow> \<exists>pre rest. s = pre @ rest \<and> match_here r rest = Some m"
proof (induction s)
  case Nil
  then show ?case by simp
next
  case (Cons c cs)
  show ?case
  proof (cases "match_here r (c # cs)")
    case None
    then have "search r cs = Some m" using Cons.prems by simp
    then obtain pre rest where "cs = pre @ rest" "match_here r rest = Some m"
      using Cons.IH by auto
    then have "c # cs = (c # pre) @ rest \<and> match_here r rest = Some m" by simp
    then show ?thesis by blast
  next
    case (Some m')
    then have "m' = m" using Cons.prems by simp
    then have "c # cs = [] @ (c # cs) \<and> match_here r (c # cs) = Some m" using Some by simp
    then show ?thesis by blast
  qed
qed

lemma search_complete:
  "match_here r rest = Some m \<Longrightarrow> \<exists>m'. search r (pre @ rest) = Some m'"
proof (induction pre)
  case Nil
  then show ?case by (cases rest) auto
next
  case (Cons a pre)
  then show ?case by (cases "match_here r (a # pre @ rest)") auto
qed

lemma match_host_path:
  "match_here (lit p @ [Many (NotCh x), One (Ch x), Many (NotCh x)]) s =
     (if starts_with p s then
        (let rest = drop (length p) s; owner = takeWhile (\<lambda>c. c \<noteq> x) rest;
             tail = dropWhile (\<lambda>c. c \<noteq> x) rest;
             name = takeWhile (\<lambda>c. c \<noteq> x) (drop 1 tail)
         in if owner \<noteq> [] \<and> tail \<noteq> [] \<and> name \<noteq> []
            then Some (p @ owner @ x # name) else None)
      else None)"
proof -
  let ?P = "\<lambda>c. c \<noteq> x"
  define rest where "rest = drop (length p) s"
  define tail where "tail = dropWhile ?P rest"
  have m: "match_here [Many (NotCh x), One (Ch x), Many (NotCh x)] rest =
      (case tail of
         [] \<Rightarrow> None
       | _ # t \<Rightarrow>
           if takeWhile ?P rest = [] then None
           else map_option (\<lambda>m. takeWhile ?P rest @ x # m)
                  (if takeWhile ?P t = [] then None else Some (takeWhile ?P t)))"
    unfolding tail_def by (simp only: match_many_then match_many_last)
  have l: "match_here (lit p @ [Many (NotCh x), One (Ch x), Many (NotCh x)]) s =
      (if starts_with p s
       then map_option ((@) p) (match_here [Many (NotCh x), One (Ch x), Many (NotCh x)] rest)
       else None)"
    by (simp only: match_lit rest_def)
  have goal: "(if starts_with p s
       then map_option ((@) p) (match_here [Many (NotCh x), One (Ch x), Many (NotCh x)] rest)
       else None) =
     (if starts_with p s then
        (let owner = takeWhile ?P rest; name = takeWhile ?P (drop 1 tail)
         in if owner \<noteq> [] \<and> tail \<noteq> [] \<and> name \<noteq> []
            then Some (p @ owner @ x # name) else None)
      else None)"
    unfolding m by (cases tail) (simp_all add: Let_def)
  show ?thesis
    unfolding l goal by (simp add: Let_def rest_def tail_def)
qed

lemma takeWhile_until:
  "x \<notin> set a \<Longrightarrow> takeWhile (\<lambda>c. c \<noteq> x) (a @ x # r) = a"
  by (induction a) auto

lemma dropWhile_until:
  "x \<notin> set a \<Longrightarrow> dropWhile (\<lambda>c. c \<noteq> x) (a @ x # r) = x # r"
  by (induction a) auto

lemma takeWhile_segment_end:
  "x \<notin> set a \<Longrightarrow> post = [] \<or> hd post = x \<Longrightarrow> takeWhile (\<lambda>c. c \<noteq> x) (a @ post) = a"
  by (cases post) (auto simp: takeWhile_until takeWhile_eq_all_conv)

lemma match_host_path_iff:
  "match_here (lit p @ [Many (NotCh x), One (Ch x), Many (NotCh x)]) s = Some m \<longleftrightarrow>
     (\<exists>owner name post. s = p @ owner @ x # name @ post
        \<and> owner \<noteq> [] \<and> x \<notin> set owner \<and> name \<noteq> [] \<and> x \<notin> set name
        \<and> (post = [] \<or> hd post = x) \<and> m = p @ owner @ x # name)"
  (is "?L \<longleftrightarrow> ?R")
proof
  let ?P = "\<lambda>c. c \<noteq> x"
  assume l: ?L
  define rest where "rest = drop (length p) s"
  define tail where "tail = dropWhile ?P rest"
  define owner where "owner = takeWhile ?P rest"
  define name where "name = takeWhile ?P (drop 1 tail)"
  define post where "post = dropWhile ?P (drop 1 tail)"
  from l have sw: "starts_with p s"
    and ne: "owner \<noteq> []" "tail \<noteq> []" "name \<noteq> []"
    and m: "m = p @ owner @ x # name"
    unfolding match_host_path rest_def tail_def owner_def name_def
    by (auto simp: Let_def split: if_splits)
  have s: "s = p @ rest" using sw by (auto simp: starts_with_iff rest_def)
  have r: "rest = owner @ tail" by (simp add: owner_def tail_def)
  obtain t where t: "tail = x # t"
    using ne(2) hd_dropWhile [of ?P rest] unfolding tail_def
    by (cases "dropWhile ?P rest") auto
  have np: "t = name @ post" by (simp add: name_def post_def t)
  have o: "x \<notin> set owner" unfolding owner_def by (auto dest: set_takeWhileD)
  have n: "x \<notin> set name" unfolding name_def by (auto dest: set_takeWhileD)
  have p: "post = [] \<or> hd post = x"
    using hd_dropWhile [of ?P "drop 1 tail"] unfolding post_def by auto
  have "s = p @ owner @ x # name @ post" using s r t np by simp
  then show ?R using ne o n p m by blast
next
  assume ?R
  then obtain owner name post where
    s: "s = p @ owner @ x # name @ post" and o: "owner \<noteq> []" "x \<notin> set owner"
    and n: "name \<noteq> []" "x \<notin> set name" and p: "post = [] \<or> hd post = x"
    and m: "m = p @ owner @ x # name"
    by blast
  have sw: "starts_with p s" using s by (auto simp: starts_with_iff)
  have rest: "drop (length p) s = owner @ x # name @ post" using s by simp
  show ?L
    unfolding match_host_path rest
    using sw o n p m
    by (simp add: Let_def takeWhile_until dropWhile_until takeWhile_segment_end)
qed

lemma groups_of_match:
  assumes "m = ''github.com/'' @ owner @ CHR ''/'' # name"
    and "CHR ''/'' \<notin> set owner" and "CHR ''/'' \<notin> set name"
  shows "group1 m = owner" and "group2 m = name"
  using assms by (simp_all add: group1_def group2_def takeWhile_until dropWhile_until)

lemma repo_regex_lit:
  "repo_regex = lit ''github.com/'' @ [Many (NotCh CHR ''/''), One (Ch CHR ''/''), Many (NotCh CHR ''/'')]"
  by (simp add: repo_regex_def)

lemma parse_error_is_format_error:
  "parse_repo_url url = Inl e \<Longrightarrow> e = format_error (trimmed url)"
  by (auto simp: parse_repo_url_def Let_def split: if_splits option.splits list.splits)

lemma parse_sound:
  assumes "parse_repo_url url = Inr (owner, name)"
  shows "host_form (trimmed url) owner name \<or> short_form (trimmed url) owner name"
proof (cases "contains ''github.com'' (trimmed url)")
  case True
  then obtain m where sm: "search repo_regex (trimmed url) = Some m"
    and g: "owner = group1 m" "name = group2 m"
    using assms by (auto simp: parse_repo_url_def Let_def split: option.splits)
  obtain pre rest where u: "trimmed url = pre @ rest" and mr: "match_here repo_regex rest = Some m"
    using search_sound [OF sm] by blast
  obtain ow nm post where
    r: "rest = ''github.com/'' @ ow @ CHR ''/'' # nm @ post"
    and seg: "ow \<noteq> []" "CHR ''/'' \<notin> set ow" "nm \<noteq> []" "CHR ''/'' \<notin> set nm"
    and p: "post = [] \<or> hd post = CHR ''/''"
    and m: "m = ''github.com/'' @ ow @ CHR ''/'' # nm"
    using mr unfolding repo_regex_lit match_host_path_iff by blast
  have "owner = ow" "name = nm"
    using g groups_of_match [OF m seg(2) seg(4)] by simp_all
  then have "host_form (trimmed url) owner name"
    unfolding host_form_def segment_def using u r seg p
    by (intro exI [of _ pre] exI [of _ post]) simp
  then show ?thesis by simp
next
  case False
  then have "split_on CHR ''/'' (trimmed url) = [owner, name]"
    using assms by (auto simp: parse_repo_url_def Let_def split: list.splits)
  then have "short_form (trimmed url) owner name"
    using False by (simp add: short_form_def split_on_two)
  then show ?thesis by simp
qed

lemma host_form_contains: "host_form u owner name \<Longrightarrow> contains ''github.com'' u"
proof -
  assume "host_form u owner name"
  then obtain pre post where "u = pre @ ''github.com/'' @ owner @ ''/'' @ name @ post"
    by (auto simp: host_form_def)
  then have "u = pre @ ''github.com'' @ (''/'' @ owner @ ''/'' @ name @ post)" by simp
  then show ?thesis unfolding contains_iff by blast
qed

lemma parse_host_complete:
  assumes "host_form (trimmed url) o1 n1"
  shows "\<exists>owner name. parse_repo_url url = Inr (owner, name) \<and> host_form (trimmed url) owner name"
proof -
  have c: "contains ''github.com'' (trimmed url)" using assms by (rule host_form_contains)
  obtain pre post where u: "trimmed url = pre @ (''github.com/'' @ o1 @ CHR ''/'' # n1 @ post)"
    and seg: "segment o1" "segment n1" and p: "post = [] \<or> hd post = CHR ''/''"
    using assms by (auto simp: host_form_def)
  have "match_here repo_regex (''github.com/'' @ o1 @ CHR ''/'' # n1 @ post)
          = Some (''github.com/'' @ o1 @ CHR ''/'' # n1)"
    unfolding repo_regex_lit match_host_path_iff using seg p
    by (intro exI [of _ o1] exI [of _ n1] exI [of _ post]) (simp add: segment_def)
  then obtain m' where "search repo_regex (trimmed url) = Some m'"
    unfolding u using search_complete by blast
  then have r: "parse_repo_url url = Inr (group1 m', group2 m')"
    using c by (simp add: parse_repo_url_def Let_def)
  have "\<not> short_form (trimmed url) (group1 m') (group2 m')"
    using c by (simp add: short_form_def)
  then have "host_form (trimmed url) (group1 m') (group2 m')"
    using parse_sound [OF r] by simp
  then show ?thesis using r by blast
qed

lemma parse_short_complete:
  assumes "short_form (trimmed url) owner name"
  shows "parse_repo_url url = Inr (owner, name)"
proof -
  have sp: "split_on CHR ''/'' (trimmed url) = [owner, name]"
    using assms unfolding short_form_def split_on_two by simp
  have nc: "\<not> contains ''github.com'' (trimmed url)"
    using assms unfolding short_form_def by blast
  show ?thesis by (simp add: parse_repo_url_def Let_def sp nc)
qed

lemma parse_examples:
  "parse_repo_url ''https://github.com/facebook/react'' = Inr (''facebook'', ''react'')"
  "parse_repo_url ''github.com/facebook/react'' = Inr (''facebook'', ''react'')"
  "parse_repo_url ''facebook/react'' = Inr (''facebook'', ''react'')"
  "parse_repo_url ''not-a-valid-ref'' = Inl (format_error ''not-a-valid-ref'')"
  "parse_repo_url ''/react'' = Inr ('''', ''react'')"
  "parse_repo_url ''my notes: github.com/a/b are nice'' = Inr (''a'', ''b are nice'')"
  "parse_repo_url ''  https://github.com/facebook/react/issues/1  '' = Inr (''facebook'', ''react'')"
  by code_simp+

text \<open>
  C5, as amended. On the text trimmed of surrounding white space and of trailing
  slashes, the function returns a pair exactly for the host form (the text
  \<open>github.com/\<close>, an owner segment, a slash and a name segment, anywhere in the text:
  full URL or bare host with path) and for the short form (no \<open>github.com\<close> and exactly
  one slash; the part before the slash may be empty), and the pair is one the form
  names; every other text gives the format error. The three references to
  facebook/react parse to the owner "facebook" and the name "react", and
  "not-a-valid-ref" gives the format error.
\<close>

theorem parse_repo_url_forms:
  "(parse_repo_url url = Inr (owner, name)
      \<longrightarrow> host_form (trimmed url) owner name \<or> short_form (trimmed url) owner name)
   \<and> ((\<exists>ow nm. host_form (trimmed url) ow nm)
      \<longrightarrow> (\<exists>ow nm. parse_repo_url url = Inr (ow, nm) \<and> host_form (trimmed url) ow nm))
   \<and> (short_form (trimmed url) owner name \<longrightarrow> parse_repo_url url = Inr (owner, name))
   \<and> (\<not> (\<exists>ow nm. host_form (trimmed url) ow nm \<or> short_form (trimmed url) ow nm)
      \<longrightarrow> parse_repo_url url = Inl (format_error (trimmed url)))
   \<and> parse_repo_url ''https://github.com/facebook/react'' = Inr (''facebook'', ''react'')
   \<and> parse_repo_url ''github.com/facebook/react'' = Inr (''facebook'', ''react'')
   \<and> parse_repo_url ''facebook/react'' = Inr (''facebook'', ''react'')
   \<and> parse_repo_url ''not-a-valid-ref'' = Inl (format_error ''not-a-valid-ref'')"
proof -
  have a: "parse_repo_url url = Inr (owner, name)
      \<longrightarrow> host_form (trimmed url) owner name \<or> short_form (trimmed url) owner name"
    using parse_sound by blast
  have b: "(\<exists>ow nm. host_form (trimmed url) ow nm)
      \<longrightarrow> (\<exists>ow nm. parse_repo_url url = Inr (ow, nm) \<and> host_form (trimmed url) ow nm)"
    using parse_host_complete by blast
  have c: "short_form (trimmed url) owner name \<longrightarrow> parse_repo_url url = Inr (owner, name)"
    using parse_short_complete by blast
  have d: "\<not> (\<exists>ow nm. host_form (trimmed url) ow nm \<or> short_form (trimmed url) ow nm)
      \<longrightarrow> parse_repo_url url = Inl (format_error (trimmed url))"
  proof
    assume no: "\<not> (\<exists>ow nm. host_form (trimmed url) ow nm \<or> short_form (trimmed url) ow nm)"
    show "parse_repo_url url = Inl (format_error (trimmed url))"
    proof (cases "parse_repo_url url")
      case (Inl e)
      then show ?thesis using parse_error_is_format_error [of url e] by simp
    next
      case (Inr p)
      then obtain ow nm where "parse_repo_url url = Inr (ow, nm)" by (cases p) auto
      then show ?thesis using parse_sound [of url ow nm] no by blast
    qed
  qed
  show ?thesis
    using a b c d parse_examples(1-4) by blast
qed

lemma trimmed_examples:
  "trimmed ''https://github.com/facebook/react'' = ''https://github.com/facebook/react''"
  "trimmed ''github.com/facebook/react/'' = ''github.com/facebook/react''"
  "trimmed '' facebook/react '' = ''facebook/react''"
  "trimmed ''not-a-valid-ref'' = ''not-a-valid-ref''"
  by code_simp+

theorem parse_repo_url_forms_witness:
  "parse_repo_url ''https://github.com/facebook/react'' = Inr (''facebook'', ''react'')
   \<and> host_form (trimmed ''https://github.com/facebook/react'') ''facebook'' ''react''
   \<and> host_form (trimmed ''github.com/facebook/react/'') ''facebook'' ''react''
   \<and> (\<exists>ow nm. parse_repo_url ''github.com/facebook/react/'' = Inr (ow, nm))
   \<and> short_form (trimmed '' facebook/react '') ''facebook'' ''react''
   \<and> parse_repo_url '' facebook/react '' = Inr (''facebook'', ''react'')
   \<and> \<not> (\<exists>ow nm. host_form (trimmed ''not-a-valid-ref'') ow nm
                  \<or> short_form (trimmed ''not-a-valid-ref'') ow nm)
   \<and> parse_repo_url ''not-a-valid-ref'' = Inl (format_error ''not-a-valid-ref'')"
proof -
  have p1: "parse_repo_url ''https://github.com/facebook/react'' = Inr (''facebook'', ''react'')"
    by (rule parse_examples)
  have nc1: "contains ''github.com'' (trimmed ''https://github.com/facebook/react'')"
    by code_simp
  have h1: "host_form (trimmed ''https://github.com/facebook/react'') ''facebook'' ''react''"
    using parse_repo_url_forms [of "''https://github.com/facebook/react''" "''facebook''" "''react''"]
      p1 nc1 by (simp add: short_form_def)
  have h2: "host_form (trimmed ''github.com/facebook/react/'') ''facebook'' ''react''"
    unfolding trimmed_examples host_form_def segment_def
    by (intro exI [of _ "[]"]) simp
  have p2: "\<exists>ow nm. parse_repo_url ''github.com/facebook/react/'' = Inr (ow, nm)"
    using parse_repo_url_forms [of "''github.com/facebook/react/''" "''facebook''" "''react''"] h2
    by blast
  have nc3: "\<not> contains ''github.com'' ''facebook/react''"
    by code_simp
  have h3: "short_form (trimmed '' facebook/react '') ''facebook'' ''react''"
    unfolding trimmed_examples short_form_def using nc3 by simp
  have p3: "parse_repo_url '' facebook/react '' = Inr (''facebook'', ''react'')"
    using parse_repo_url_forms [of "'' facebook/react ''" "''facebook''" "''react''"] h3
    by blast
  have nc4: "\<not> contains ''github.com'' ''not-a-valid-ref''"
    by code_simp
  have h4: "\<not> (\<exists>ow nm. host_form (trimmed ''not-a-valid-ref'') ow nm
                  \<or> short_form (trimmed ''not-a-valid-ref'') ow nm)"
  proof
    assume "\<exists>ow nm. host_form (trimmed ''not-a-valid-ref'') ow nm
                  \<or> short_form (trimmed ''not-a-valid-ref'') ow nm"
    then obtain ow nm where
      "host_form ''not-a-valid-ref'' ow nm \<or> short_form ''not-a-valid-ref'' ow nm"
      unfolding trimmed_examples by blast
    then show False
    proof
      assume "host_form ''not-a-valid-ref'' ow nm"
      then show False using host_form_contains nc4 by blast
    next
      assume "short_form ''not-a-valid-ref'' ow nm"
      then have "''not-a-valid-ref'' = ow @ CHR ''/'' # nm" by (simp add: short_form_def)
      then have "CHR ''/'' \<in> set ''not-a-valid-ref''"
        by (metis in_set_conv_decomp)
      then show False by simp
    qed
  qed
  have p4: "parse_repo_url ''not-a-valid-ref'' = Inl (format_error ''not-a-valid-ref'')"
    using parse_repo_url_forms [of "''not-a-valid-ref''" "[]" "[]"] h4
    by (simp add: trimmed_examples)
  show ?thesis
    using p1 h1 h2 p2 h3 p3 h4 p4 by blast
qed

text \<open>
  The claim as first stated lets only the full URL, the bare host with a path and
  \<open>owner/repo\<close> through. The function also returns a pair for a text with an empty owner,
  and for a text that only mentions \<open>github.com/a/b\<close> somewhere, where the name then
  runs to the next slash or to the end of the text.
\<close>

theorem parse_repo_url_forms_counterexample:
  "parse_repo_url ''/react'' = Inr ([], ''react'')
   \<and> parse_repo_url ''my notes: github.com/a/b are nice'' = Inr (''a'', ''b are nice'')"
  using parse_examples(5,6) by simp

section \<open>Properties of the dependency detection\<close>

lemma probe_agree:
  assumes "processed r f"
    and "\<forall>g. g \<in> fst ` set pre \<or> g = f \<longrightarrow> r' g = r g"
  shows "probe r' (pre @ (f, t) # post) acc = probe r (pre @ (f, t) # post) acc"
  using assms
proof (induction pre arbitrary: acc)
  case Nil
  then show ?case
    by (auto simp: processed_def Let_def split: option.splits if_splits)
next
  case (Cons a pre)
  obtain g u where a: "a = (g, u)" by (cases a)
  have eq: "r' g = r g" using Cons.prems(2) a by auto
  have ih: "probe r' (pre @ (f, t) # post) acc' = probe r (pre @ (f, t) # post) acc'" for acc'
    using Cons.IH [OF Cons.prems(1)] Cons.prems(2) by auto
  show ?case
    by (simp add: a eq ih Let_def split: option.splits)
qed

lemma probe_type:
  assumes "\<forall>(g, u) \<in> set pre. \<not> processed r g" and "processed r f"
  shows "dep_type (probe r (pre @ (f, t) # post) acc) = Some t"
  using assms
proof (induction pre arbitrary: acc)
  case Nil
  then show ?case by (auto simp: processed_def Let_def split: option.splits)
next
  case (Cons a pre)
  obtain g u where a: "a = (g, u)" by (cases a)
  have np: "\<not> processed r g" using Cons.prems(1) a by auto
  have ih: "dep_type (probe r (pre @ (f, t) # post) acc') = Some t" for acc'
    using Cons.IH Cons.prems by auto
  show ?case using np
    by (auto simp: a ih processed_def Let_def split: option.splits if_splits)
qed

lemma dep_files_names:
  "map fst dep_files =
     [''package.json'', ''requirements.txt'', ''Cargo.toml'', ''go.mod'', ''pom.xml'',
      ''build.gradle'', ''Gemfile'']"
  by (simp add: dep_files_def)

text \<open>
  C4, as amended. The manifests are probed in the order package.json, requirements.txt,
  Cargo.toml, go.mod, pom.xml, build.gradle, Gemfile, and the probe stops at the first
  one that is found and read without error. When a manifest \<open>f\<close> is found and read
  without error, the manifests after it do not determine the record: every repository
  that answers as this one for \<open>f\<close> and for the manifests before it gives the same
  record. When no manifest before \<open>f\<close> is found and read without error, the record has
  the type of \<open>f\<close>.
\<close>

theorem dependencies_first_processed_wins:
  assumes "dep_files = pre @ (f, t) # post"
    and "processed r f"
    and "\<forall>g. g \<in> fst ` set pre \<or> g = f \<longrightarrow> r' g = r g"
  shows "map fst dep_files =
           [''package.json'', ''requirements.txt'', ''Cargo.toml'', ''go.mod'', ''pom.xml'',
            ''build.gradle'', ''Gemfile'']
       \<and> get_dependencies r' = get_dependencies r
       \<and> ((\<forall>(g, u) \<in> set pre. \<not> processed r g) \<longrightarrow> dep_type (get_dependencies r) = Some t)"
proof -
  have same: "get_dependencies r' = get_dependencies r"
    unfolding get_dependencies_def assms(1) using assms(2,3) by (rule probe_agree)
  have ty: "(\<forall>(g, u) \<in> set pre. \<not> processed r g) \<longrightarrow> dep_type (get_dependencies r) = Some t"
    unfolding get_dependencies_def assms(1) using assms(2) by (auto intro: probe_type)
  show ?thesis using same ty dep_files_names by simp
qed

lemma deps_examples:
  "get_dependencies npm_repo =
     \<lparr>dep_count = 3, dep_type = Some ''npm'', dep_list = [''react'', ''lodash'', ''jest'']\<rparr>"
  "get_dependencies (npm_repo(''Gemfile'' := Some \<lparr>json_deps = None, utf8_text = Some ''gem''\<rparr>)) =
     \<lparr>dep_count = 3, dep_type = Some ''npm'', dep_list = [''react'', ''lodash'', ''jest'']\<rparr>"
  "get_dependencies broken_json_repo =
     \<lparr>dep_count = 2, dep_type = Some ''pip'', dep_list = [''flask'', ''requests'']\<rparr>"
  "get_dependencies (broken_json_repo(''requirements.txt'' := None)) =
     \<lparr>dep_count = 0, dep_type = Some ''npm'', dep_list = []\<rparr>"
  by code_simp+

theorem dependencies_first_processed_wins_witness:
  "dep_files = [] @ (''package.json'', ''npm'') # tl dep_files
   \<and> processed npm_repo ''package.json''
   \<and> get_dependencies (npm_repo(''Gemfile'' := Some \<lparr>json_deps = None, utf8_text = Some ''gem''\<rparr>))
       = get_dependencies npm_repo
   \<and> dep_type (get_dependencies npm_repo) = Some ''npm''
   \<and> dep_files = [(''package.json'', ''npm'')] @ (''requirements.txt'', ''pip'') # tl (tl dep_files)
   \<and> \<not> processed broken_json_repo ''package.json''
   \<and> processed broken_json_repo ''requirements.txt''
   \<and> get_dependencies (broken_json_repo(''Cargo.toml'' := Some \<lparr>json_deps = None, utf8_text = None\<rparr>))
       = get_dependencies broken_json_repo
   \<and> dep_type (get_dependencies broken_json_repo) = Some ''pip''"
proof -
  let ?gem = "npm_repo(''Gemfile'' := Some \<lparr>json_deps = None, utf8_text = Some ''gem''\<rparr>)"
  let ?cargo = "broken_json_repo(''Cargo.toml'' := Some \<lparr>json_deps = None, utf8_text = None\<rparr>)"
  have s1: "dep_files = [] @ (''package.json'', ''npm'') # tl dep_files"
    by (simp add: dep_files_def)
  have p1: "processed npm_repo ''package.json''"
    by (simp add: processed_def npm_repo_def)
  have a1: "\<forall>g. g \<in> fst ` set [] \<or> g = ''package.json'' \<longrightarrow> ?gem g = npm_repo g"
    by simp
  have s2: "dep_files = [(''package.json'', ''npm'')] @ (''requirements.txt'', ''pip'') # tl (tl dep_files)"
    by (simp add: dep_files_def)
  have n2: "\<not> processed broken_json_repo ''package.json''"
    by (simp add: processed_def broken_json_repo_def)
  have p2: "processed broken_json_repo ''requirements.txt''"
    by (simp add: processed_def broken_json_repo_def)
  have a2: "\<forall>g. g \<in> fst ` set [(''package.json'', ''npm'')] \<or> g = ''requirements.txt''
              \<longrightarrow> ?cargo g = broken_json_repo g"
    by simp
  have np: "\<forall>(g, u) \<in> set [(''package.json'', ''npm'')]. \<not> processed broken_json_repo g"
    using n2 by simp
  have r1: "get_dependencies ?gem = get_dependencies npm_repo"
    and t1: "dep_type (get_dependencies npm_repo) = Some ''npm''"
    using dependencies_first_processed_wins [where r' = ?gem, OF s1 p1 a1] by simp_all
  have r2: "get_dependencies ?cargo = get_dependencies broken_json_repo"
    and t2: "dep_type (get_dependencies broken_json_repo) = Some ''pip''"
    using dependencies_first_processed_wins [where r' = ?cargo, OF s2 p2 a2] np by simp_all
  show ?thesis
    using s1 p1 s2 n2 p2 r1 t1 r2 t2 by blast
qed

text \<open>
  The claim as first stated stops at the first manifest that exists. A package.json that
  is there but is not valid JSON does not stop the probe: with a requirements.txt beside
  it the record is the one of the requirements.txt, and without it the record keeps the
  type npm with no dependency.
\<close>

theorem dependencies_first_found_counterexample:
  "broken_json_repo ''package.json'' \<noteq> None
   \<and> get_dependencies broken_json_repo =
       \<lparr>dep_count = 2, dep_type = Some ''pip'', dep_list = [''flask'', ''requests'']\<rparr>
   \<and> get_dependencies (broken_json_repo(''requirements.txt'' := None)) =
       \<lparr>dep_count = 0, dep_type = Some ''npm'', dep_list = []\<rparr>
   \<and> get_dependencies broken_json_repo
       \<noteq> get_dependencies (broken_json_repo(''requirements.txt'' := None))"
proof -
  have e: "broken_json_repo ''package.json'' \<noteq> None"
    by (simp add: broken_json_repo_def)
  show ?thesis
    using e deps_examples(3,4) by simp
qed

section \<open>Properties of the command\<close>

text \<open>
  C7. The constructor of the roaster has a parameter \<open>quick_mode\<close> that skips the
  initialization of the backend, but the quick branch of the command does not pass it:
  it builds the roaster as the other branch does. With the quick flag and a GPT model
  without a key the command ends with the \<open>ValueError\<close> of the constructor; with the
  default model and no Ollama library it ends with the \<open>ImportError\<close>; with the library
  it creates the client and asks the server for its models before the quick roast.
\<close>

theorem quick_flag_initializes_backend:
  "generate_roast sf offline_env True ''gpt-4'' None False spin_repo =
     ([], Uncaught (ValueError (''OpenAI API key required for GPT models.'' @ nl
                    @ ''Usage: gte roast <repo> --model gpt-4 --api-key YOUR_KEY'')))
   \<and> generate_roast sf offline_env True ''mistral'' None False spin_repo =
     ([], Uncaught (ImportError (''Ollama not installed. Install with: pip install ollama'' @ nl
                    @ ''Also install Ollama: https://ollama.com/download'')))
   \<and> generate_roast sf local_env True ''mistral'' None False spin_repo =
     ([CreateOllamaClient, ListOllamaModels], Shown (quick_roast spin_repo))
   \<and> AIRoaster_init env m k True =
     ([], Inr \<lparr>model = m, api_key = k, client = None, backend = None\<rparr>)"
proof -
  have a: "generate_roast sf offline_env True ''gpt-4'' None False spin_repo =
     ([], Uncaught (ValueError (''OpenAI API key required for GPT models.'' @ nl
                    @ ''Usage: gte roast <repo> --model gpt-4 --api-key YOUR_KEY'')))"
    by (simp add: generate_roast_def AIRoaster_init_def init_openai_def)
  have b: "generate_roast sf offline_env True ''mistral'' None False spin_repo =
     ([], Uncaught (ImportError (''Ollama not installed. Install with: pip install ollama'' @ nl
                    @ ''Also install Ollama: https://ollama.com/download'')))"
    by (simp add: generate_roast_def AIRoaster_init_def init_ollama_def offline_env_def)
  have c: "generate_roast sf local_env True ''mistral'' None False spin_repo =
     ([CreateOllamaClient, ListOllamaModels], Shown (quick_roast spin_repo))"
    by (simp add: generate_roast_def AIRoaster_init_def init_ollama_def offline_env_def
          local_env_def)
  have d: "AIRoaster_init env m k True =
     ([], Inr \<lparr>model = m, api_key = k, client = None, backend = None\<rparr>)"
    by (simp add: AIRoaster_init_def)
  show ?thesis using a b c d by simp
qed

end
